theory Spec2Isabelle
  imports Main
begin

section \<open>Python strings\<close>

text \<open>
  A Python \<open>str\<close> is modelled as a \<open>string\<close>: a list of 8-bit characters read as the
  code points 0..255. \<open>isspace\<close> is \<open>str.isspace\<close> on one code point of that range,
  which is also what \<open>\s\<close> matches in a \<open>re\<close> pattern over \<open>str\<close>.
\<close>

definition isspace :: "char \<Rightarrow> bool" where
  "isspace c =
     ((9 \<le> (of_char c :: nat) \<and> (of_char c :: nat) \<le> 13)
      \<or> (28 \<le> (of_char c :: nat) \<and> (of_char c :: nat) \<le> 32)
      \<or> (of_char c :: nat) = 133 \<or> (of_char c :: nat) = 160)"

text \<open>\<open>s.strip()\<close>\<close>

definition strip :: "string \<Rightarrow> string" where
  "strip s = rev (dropWhile isspace (rev (dropWhile isspace s)))"

text \<open>\<open>sep.join(xs)\<close>\<close>

fun py_join :: "string \<Rightarrow> string list \<Rightarrow> string" where
  "py_join sep [] = []"
| "py_join sep [x] = x"
| "py_join sep (x # y # ys) = x @ sep @ py_join sep (y # ys)"

text \<open>The maximal runs of non-whitespace characters of a string (\<open>\S+\<close>, found all).\<close>

fun split_ws :: "string \<Rightarrow> string \<Rightarrow> string list" where
  "split_ws cur [] = (if cur = [] then [] else [rev cur])"
| "split_ws cur (c # cs) =
     (if isspace c then (if cur = [] then split_ws [] cs else rev cur # split_ws [] cs)
      else split_ws (c # cur) cs)"

text \<open>\<open>s.startswith(p)\<close>, returning the rest of \<open>s\<close>.\<close>

fun strip_prefix :: "string \<Rightarrow> string \<Rightarrow> string option" where
  "strip_prefix [] s = Some s"
| "strip_prefix (p # ps) [] = None"
| "strip_prefix (p # ps) (c # cs) = (if p = c then strip_prefix ps cs else None)"

section \<open>Python values, exceptions and dictionaries\<close>

text \<open>
  The values the script handles. \<open>PFloat m e\<close> is the double \<open>m * 2^e\<close>; \<open>PObj\<close> is a
  \<open>JsObjectWrapper\<close> around a JavaScript object with the listed own properties.
\<close>

datatype pyval =
    PNone
  | PBool bool
  | PInt int
  | PFloat int int
  | PStr string
  | PObj "(string \<times> pyval) list"

datatype pyexc =
    NameError string
  | ValueError string
  | TypeError string
  | AttributeError string
  | ParserRejectedMarkup string
  | KeyError "string list"
  | JsException string
  | IOError string

text \<open>\<open>str(e)\<close>, as the f-strings of the handlers format the exception.\<close>

fun exc_str :: "pyexc \<Rightarrow> string" where
  "exc_str (NameError n) = ''name '' @ [CHR 0x27] @ n @ [CHR 0x27] @ '' is not defined''"
| "exc_str (ValueError m) = m"
| "exc_str (TypeError m) = m"
| "exc_str (AttributeError m) = m"
| "exc_str (ParserRejectedMarkup m) = m"
| "exc_str (KeyError ks) = ''['' @ py_join '', '' ks @ ''] not found in axis''"
| "exc_str (JsException m) = m"
| "exc_str (IOError m) = m"

text \<open>
  A \<open>dict\<close> keeps its keys in insertion order; \<open>d[k] = v\<close> replaces the value of a key
  that is present where it stands and appends a new key at the end.
\<close>

type_synonym dict = "(string \<times> pyval) list"

fun dict_set :: "string \<Rightarrow> pyval \<Rightarrow> dict \<Rightarrow> dict" where
  "dict_set k v [] = [(k, v)]"
| "dict_set k v (p # ps) = (if fst p = k then (k, v) # ps else p # dict_set k v ps)"

text \<open>\<open>d.update(other)\<close>: the items of \<open>other\<close> are stored in their order.\<close>

fun dict_update :: "dict \<Rightarrow> dict \<Rightarrow> dict" where
  "dict_update d [] = d"
| "dict_update d ((k, v) # kvs) = dict_update (dict_set k v d) kvs"

definition dict_keys :: "dict \<Rightarrow> string list" where
  "dict_keys d = map fst d"

section \<open>The parsed document (BeautifulSoup)\<close>

text \<open>
  The tree \<open>BeautifulSoup(markup, "html.parser")\<close> builds. \<open>Text\<close> is a
  \<open>NavigableString\<close> (or \<open>CData\<close>); \<open>Special\<close> is a string of one of the classes that
  \<open>get_text\<close> leaves out of an ordinary tag (\<open>Comment\<close>, \<open>Doctype\<close>, \<open>Declaration\<close>,
  \<open>ProcessingInstruction\<close>, and the \<open>Script\<close>, \<open>Stylesheet\<close> and \<open>TemplateString\<close>
  of bs4 4.9 and later). A tag holds its name, its attribute dictionary and its children.
  The \<open>BeautifulSoup\<close> object itself is a tag named \<open>[document]\<close>.
\<close>

datatype node =
    Text string
  | Special string
  | Tag string "(string \<times> string) list" "node list"

definition document :: "node list \<Rightarrow> node" where
  "document cs = Tag ''[document]'' [] cs"

text \<open>\<open>tag.descendants\<close>: every node below the tag, in document order.\<close>

fun descendants :: "node \<Rightarrow> node list" where
  "descendants (Tag n as cs) = concat (map (\<lambda>c. c # descendants c) cs)"
| "descendants (Text s) = []"
| "descendants (Special s) = []"

text \<open>\<open>tag.find_all(...)\<close> and \<open>tag.find(...)\<close>, for a test on tags.\<close>

definition find_all :: "(node \<Rightarrow> bool) \<Rightarrow> node \<Rightarrow> node list" where
  "find_all p nd = filter p (descendants nd)"

definition find_tag :: "(node \<Rightarrow> bool) \<Rightarrow> node \<Rightarrow> node option" where
  "find_tag p nd = (case find_all p nd of [] \<Rightarrow> None | x # xs \<Rightarrow> Some x)"

fun named :: "string \<Rightarrow> node \<Rightarrow> bool" where
  "named n (Tag m as cs) = (m = n)"
| "named n (Text s) = False"
| "named n (Special s) = False"

fun attr :: "node \<Rightarrow> string \<Rightarrow> string option" where
  "attr (Tag n as cs) k = map_of as k"
| "attr (Text s) k = None"
| "attr (Special s) k = None"

text \<open>\<open>find(name, id=i)\<close> and \<open>find(name, {k: v})\<close>: the attribute equals the string.\<close>

definition has_attr :: "string \<Rightarrow> string \<Rightarrow> string \<Rightarrow> node \<Rightarrow> bool" where
  "has_attr n k v nd = (named n nd \<and> attr nd k = Some v)"

text \<open>
  \<open>find(name, class_=c)\<close> and the selector \<open>name.c\<close>: \<open>class\<close> is a multi-valued
  attribute, split at whitespace, and one of its values is \<open>c\<close>.
\<close>

definition classes :: "node \<Rightarrow> string list" where
  "classes nd = (case attr nd ''class'' of None \<Rightarrow> [] | Some v \<Rightarrow> split_ws [] v)"

definition has_class :: "string \<Rightarrow> string \<Rightarrow> node \<Rightarrow> bool" where
  "has_class n c nd = (named n nd \<and> c \<in> set (classes nd))"

text \<open>\<open>find_all("a", href=True)\<close>: the attribute is present.\<close>

definition hyperlink :: "node \<Rightarrow> bool" where
  "hyperlink nd = (named ''a'' nd \<and> attr nd ''href'' \<noteq> None)"

text \<open>\<open>tag.string\<close>: the only child when it is a string, or the only child's \<open>.string\<close>.\<close>

fun tag_string :: "node \<Rightarrow> string option" where
  "tag_string (Text s) = Some s"
| "tag_string (Special s) = Some s"
| "tag_string (Tag n as [c]) = tag_string c"
| "tag_string (Tag n as cs) = None"

text \<open>
  \<open>tag.get_text(strip=True)\<close> of an ordinary tag: every \<open>Text\<close> below it is stripped,
  the empty ones are dropped, and the rest are concatenated with no separator.
\<close>

fun text_of :: "node \<Rightarrow> string option" where
  "text_of (Text s) = Some s"
| "text_of (Special s) = None"
| "text_of (Tag n as cs) = None"

definition stripped_strings :: "node \<Rightarrow> string list" where
  "stripped_strings nd = filter (\<lambda>s. s \<noteq> []) (map strip (List.map_filter text_of (descendants nd)))"

definition get_text_strip :: "node \<Rightarrow> string" where
  "get_text_strip nd = concat (stripped_strings nd)"

text \<open>
  \<open>for el in soup.select(sel): el.decompose()\<close>: every element the selector matches
  leaves the tree with all it contains (an element matched inside a matched element is
  already gone when its turn comes).
\<close>

fun decompose_all :: "(node \<Rightarrow> bool) \<Rightarrow> node \<Rightarrow> node" where
  "decompose_all p (Tag n as cs) = Tag n as (map (decompose_all p) (filter (\<lambda>c. \<not> p c) cs))"
| "decompose_all p (Text s) = Text s"
| "decompose_all p (Special s) = Special s"

section \<open>The two regular expressions\<close>

text \<open>
  \<open>\s+\<close> and \<open>\s*\<close> before a literal that starts with a non-space character: the run
  of whitespace is taken whole, since giving a character back leaves whitespace where the
  literal must start.
\<close>

definition ws1 :: "string \<Rightarrow> string option" where
  "ws1 s = (case s of [] \<Rightarrow> None | c # cs \<Rightarrow> if isspace c then Some (dropWhile isspace s) else None)"

definition ws0 :: "string \<Rightarrow> string" where
  "ws0 s = dropWhile isspace s"

text \<open>\<open>var\s+findagrave\s*=\<close> matched at the start of \<open>s\<close>; the rest of \<open>s\<close>.\<close>

definition re_decl_at :: "string \<Rightarrow> string option" where
  "re_decl_at s =
     Option.bind (strip_prefix ''var'' s) (\<lambda>a.
     Option.bind (ws1 a) (\<lambda>b.
     Option.bind (strip_prefix ''findagrave'' b) (\<lambda>c.
     strip_prefix ''='' (ws0 c))))"

text \<open>\<open>re.compile(r"var\s+findagrave\s*=").search(s)\<close> finds a match.\<close>

fun re_search_decl :: "string \<Rightarrow> bool" where
  "re_search_decl [] = False"
| "re_search_decl (c # cs) = (if re_decl_at (c # cs) \<noteq> None then True else re_search_decl cs)"

text \<open>\<open>});\s*var\s+htmlSnippets\<close> (the group's closing brace first) at the start of \<open>s\<close>.\<close>

definition re_tail_at :: "string \<Rightarrow> bool" where
  "re_tail_at s =
     (Option.bind (strip_prefix ''};'' s) (\<lambda>a.
      Option.bind (strip_prefix ''var'' (ws0 a)) (\<lambda>b.
      Option.bind (ws1 b) (\<lambda>c.
      strip_prefix ''htmlSnippets'' c))) \<noteq> None)"

text \<open>
  The lazy \<open>.*?\<close> under \<open>re.DOTALL\<close>: the shortest run of any characters after which
  the tail matches.
\<close>

fun lazy_any :: "string \<Rightarrow> string \<Rightarrow> string option" where
  "lazy_any acc [] = (if re_tail_at [] then Some (rev acc) else None)"
| "lazy_any acc (c # cs) = (if re_tail_at (c # cs) then Some (rev acc) else lazy_any (c # acc) cs)"

text \<open>
  \<open>var\s+findagrave\s*=\s*({.*?});\s*var\s+htmlSnippets\<close> matched at the start of
  \<open>s\<close>; group 1.
\<close>

definition re_object_at :: "string \<Rightarrow> string option" where
  "re_object_at s =
     Option.bind (re_decl_at s) (\<lambda>a.
     Option.bind (strip_prefix ''{'' (ws0 a)) (\<lambda>b.
     map_option (\<lambda>body. ''{'' @ body @ ''}'') (lazy_any [] b)))"

text \<open>\<open>re.search\<close> of that pattern: the leftmost match; \<open>match.group(1)\<close>.\<close>

fun re_search_object :: "string \<Rightarrow> string option" where
  "re_search_object [] = None"
| "re_search_object (c # cs) =
     (case re_object_at (c # cs) of Some g \<Rightarrow> Some g | None \<Rightarrow> re_search_object cs)"

section \<open>The libraries and the outside world\<close>

text \<open>
  What the script takes from bs4, js2py and pandas is a parameter of the model:
  \<^item> \<open>html_parser markup\<close> is \<open>BeautifulSoup(markup, "html.parser")\<close> for a \<open>str\<close>:
    the tree, or \<open>Inl\<close> the message of the \<open>ParserRejectedMarkup\<close> that bs4 raises when
    html.parser refuses the markup;
  \<^item> \<open>markup_error v\<close> is the message of the \<open>TypeError\<close> the constructor raises for a
    markup \<open>v\<close> that is no string (\<open>None\<close>, a number, a boolean, a wrapped object);
  \<^item> \<open>eval_js code\<close> is \<open>js2py.eval_js(code)\<close>: the value converted to Python, or
    \<open>Inl\<close> the message of the exception raised;
  \<^item> \<open>to_excel df\<close> is opening the \<open>ExcelWriter\<close>, \<open>to_excel\<close> and \<open>close\<close>: \<open>None\<close>
    when the workbook is written, \<open>Some\<close> the message of the exception otherwise.
  The response of \<open>requests.get\<close> with \<open>raise_for_status\<close> is the input of a run.
\<close>

type_synonym dataframe = "(string \<times> pyval) list"

record libs =
  html_parser :: "string \<Rightarrow> string + node"
  markup_error :: "pyval \<Rightarrow> string"
  eval_js :: "string \<Rightarrow> string + pyval"
  to_excel :: "dataframe \<Rightarrow> string option"

datatype response = FetchFailed string | Page string

section \<open>The state of a run\<close>

text \<open>
  \<open>errors_txt\<close> holds what the run has appended to \<open>errors.txt\<close>, one entry per
  \<open>log_error\<close>. \<open>main_fields\<close> is the module-level name: \<open>None\<close> while it is unbound.
\<close>

record state =
  errors_txt :: "string list"
  main_fields :: "dict option"

definition st0 :: state where
  "st0 = \<lparr>errors_txt = [], main_fields = None\<rparr>"

definition log_error :: "string \<Rightarrow> state \<Rightarrow> state" where
  "log_error msg st = st\<lparr>errors_txt := errors_txt st @ [strip msg @ [CHR 0x0A]]\<rparr>"

text \<open>
  A statement runs on the state and either completes or raises; what it changed before
  raising stays changed.
\<close>

type_synonym stmt = "state \<Rightarrow> pyexc option \<times> state"

definition seq :: "stmt \<Rightarrow> stmt \<Rightarrow> stmt" where
  "seq a b st = (case a st of (Some e, st') \<Rightarrow> (Some e, st') | (None, st') \<Rightarrow> b st')"

definition try_except :: "stmt \<Rightarrow> (pyexc \<Rightarrow> stmt) \<Rightarrow> stmt" where
  "try_except body handler st =
     (case body st of (None, st') \<Rightarrow> (None, st') | (Some e, st') \<Rightarrow> handler e st')"

definition log_stmt :: "string \<Rightarrow> stmt" where
  "log_stmt msg st = (None, log_error msg st)"

text \<open>\<open>main_fields[k] = v\<close> for a value already computed.\<close>

definition setitem :: "string \<Rightarrow> pyval \<Rightarrow> stmt" where
  "setitem k v st =
     (case main_fields st of
        None \<Rightarrow> (Some (NameError ''main_fields''), st)
      | Some d \<Rightarrow> (None, st\<lparr>main_fields := Some (dict_set k v d)\<rparr>))"

text \<open>
  \<open>main_fields[k] = <expression>\<close>: the right-hand side is evaluated first and may
  raise; then the name is looked up and the item stored.
\<close>

definition assign :: "string \<Rightarrow> pyexc + pyval \<Rightarrow> stmt" where
  "assign k r st = (case r of Inl e \<Rightarrow> (Some e, st) | Inr v \<Rightarrow> setitem k v st)"

text \<open>
  The body of step 7: the lookups that fill \<open>family_links\<close> run first and may raise;
  then \<open>main_fields.update({...})\<close> looks the name up and stores the items.
\<close>

definition update_stmt :: "pyexc + dict \<Rightarrow> stmt" where
  "update_stmt r st =
     (case r of
        Inl e \<Rightarrow> (Some e, st)
      | Inr kvs \<Rightarrow>
          (case main_fields st of
             None \<Rightarrow> (Some (NameError ''main_fields''), st)
           | Some d \<Rightarrow> (None, st\<lparr>main_fields := Some (dict_update d kvs)\<rparr>)))"

section \<open>Step 3: the embedded object\<close>

definition find_script :: "node \<Rightarrow> node option" where
  "find_script soup =
     find_tag (\<lambda>nd. named ''script'' nd \<and>
                  (case tag_string nd of None \<Rightarrow> False | Some s \<Rightarrow> re_search_decl s)) soup"

definition missing_object :: string where
  "missing_object = ''Missing '' @ [CHR 0x27] @ ''findagrave'' @ [CHR 0x27] @ '' JS object''"

definition failed_to_extract :: string where
  "failed_to_extract = ''Failed to extract '' @ [CHR 0x27] @ ''findagrave'' @ [CHR 0x27] @ '' object''"

definition js_code :: "string \<Rightarrow> string" where
  "js_code g = ''var findagrave = '' @ g @ ''; findagrave;''"

definition extract_js :: "libs \<Rightarrow> node \<Rightarrow> pyexc + pyval" where
  "extract_js L soup =
     (case find_script soup of
        None \<Rightarrow> Inl (ValueError missing_object)
      | Some script_tag \<Rightarrow>
          (case tag_string script_tag of
             None \<Rightarrow> Inl (TypeError ''expected string or bytes-like object'')
           | Some raw_script \<Rightarrow>
               (case re_search_object raw_script of
                  None \<Rightarrow> Inl (ValueError failed_to_extract)
                | Some g \<Rightarrow>
                    (case eval_js L (js_code g) of
                       Inl m \<Rightarrow> Inl (JsException m)
                     | Inr d \<Rightarrow> Inr d))))"

section \<open>Step 4: the main fields\<close>

text \<open>
  \<open>data.name\<close>: a wrapped JavaScript object gives the property converted to Python,
  \<open>None\<close> for a property it does not have; any other Python value has no such attribute.
\<close>

fun type_name :: "pyval \<Rightarrow> string" where
  "type_name PNone = ''NoneType''"
| "type_name (PBool b) = ''bool''"
| "type_name (PInt n) = ''int''"
| "type_name (PFloat m e) = ''float''"
| "type_name (PStr s) = ''str''"
| "type_name (PObj d) = ''JsObjectWrapper''"

definition no_attribute :: "pyval \<Rightarrow> string \<Rightarrow> string" where
  "no_attribute v k =
     [CHR 0x27] @ type_name v @ [CHR 0x27] @ '' object has no attribute '' @ [CHR 0x27] @ k @ [CHR 0x27]"

fun js_getattr :: "pyval \<Rightarrow> string \<Rightarrow> pyexc + pyval" where
  "js_getattr (PObj d) k = Inr (case map_of d k of None \<Rightarrow> PNone | Some v \<Rightarrow> v)"
| "js_getattr v k = Inl (AttributeError (no_attribute v k))"

definition prefix_span :: "node \<Rightarrow> bool" where
  "prefix_span nd = has_class ''span'' ''prefix'' nd"

text \<open>
  Lines 51 to 55, from \<open>raw_full_name\<close> to \<open>cleaned_full_name\<close>. \<open>cleaned_tree\<close> is
  lines 53 to 55 on the tree \<open>soup_name\<close>, and \<open>cleaned\<close> the transform on a string for a
  parser that returns a tree. The constructor of line 52 refuses what is no string, and
  raises for a string the parser rejects.
\<close>

definition cleaned_tree :: "node \<Rightarrow> string" where
  "cleaned_tree soup_name = get_text_strip (decompose_all prefix_span soup_name)"

definition cleaned :: "(string \<Rightarrow> node) \<Rightarrow> string \<Rightarrow> string" where
  "cleaned parser s = cleaned_tree (parser s)"

definition clean_full_name :: "libs \<Rightarrow> pyval \<Rightarrow> pyexc + string" where
  "clean_full_name L raw_full_name =
     (case raw_full_name of
        PStr s \<Rightarrow>
          (case html_parser L s of
             Inl m \<Rightarrow> Inl (ParserRejectedMarkup m)
           | Inr soup_name \<Rightarrow> Inr (cleaned_tree soup_name))
      | v \<Rightarrow> Inl (TypeError (markup_error L v)))"

text \<open>The items of the dictionary display after \<open>full_name\<close>: output key, payload key.\<close>

definition field_table :: "(string \<times> string) list" where
  "field_table =
     [(''first_name'', ''firstName''),
      (''last_name'', ''lastName''),
      (''birth_year'', ''birthYear''),
      (''death_year'', ''deathYear''),
      (''death_date'', ''deathDate''),
      (''death_month'', ''deathMonth''),
      (''death_day'', ''deathDay''),
      (''cemetery_name'', ''cemeteryName''),
      (''cemetery_city'', ''cemeteryCityName''),
      (''cemetery_county'', ''cemeteryCountyName''),
      (''cemetery_state'', ''cemeteryStateName''),
      (''cemetery_country'', ''cemeteryCountryName''),
      (''cemetery_latitude'', ''cemeteryLatitude''),
      (''cemetery_longitude'', ''cemeteryLongitude''),
      (''memorial_id'', ''memorialId''),
      (''person_id'', ''personId''),
      (''memorial_contributor_id'', ''memorialContributorId''),
      (''sponsor_contributor_id'', ''sponsorContributorId''),
      (''memorial_url'', ''linkToShare''),
      (''is_famous'', ''isFamous''),
      (''is_cenotaph'', ''isCenotaph''),
      (''has_grave_photo'', ''intermentHasPhoto''),
      (''cover_photo_id'', ''coverPhotoId''),
      (''cover_photo_url'', ''photoToShare''),
      (''default_photo_url'', ''defaultPhotoToShare''),
      (''cemetery_id'', ''memorialCemeteryId'')]"

fun build_fields :: "pyval \<Rightarrow> (string \<times> string) list \<Rightarrow> pyexc + dict" where
  "build_fields data [] = Inr []"
| "build_fields data ((k, a) # rest) =
     (case js_getattr data a of
        Inl e \<Rightarrow> Inl e
      | Inr v \<Rightarrow> (case build_fields data rest of Inl e \<Rightarrow> Inl e | Inr d \<Rightarrow> Inr ((k, v) # d)))"

text \<open>The body of the \<open>try\<close>: the value bound to \<open>main_fields\<close>, or the exception.\<close>

definition normalize :: "libs \<Rightarrow> pyval \<Rightarrow> pyexc + dict" where
  "normalize L data =
     (case js_getattr data ''fullName'' of
        Inl e \<Rightarrow> Inl e
      | Inr raw_full_name \<Rightarrow>
          (case clean_full_name L raw_full_name of
             Inl e \<Rightarrow> Inl e
           | Inr cleaned_full_name \<Rightarrow>
               (case build_fields data field_table of
                  Inl e \<Rightarrow> Inl e
                | Inr d \<Rightarrow> Inr ((''full_name'', PStr cleaned_full_name) # d))))"

definition step4 :: "libs \<Rightarrow> pyval \<Rightarrow> stmt" where
  "step4 L data st =
     (case normalize L data of
        Inr d \<Rightarrow> (None, st\<lparr>main_fields := Some d\<rparr>)
      | Inl e \<Rightarrow> log_stmt (''[DATA] Failed to extract main_fields: '' @ exc_str e) st)"

section \<open>Steps 5 to 7: the sections of the markup\<close>

definition biography_of :: "node \<Rightarrow> string" where
  "biography_of soup =
     (case find_tag (has_attr ''div'' ''id'' ''partBio'') soup of
        None \<Rightarrow> [] | Some bio_div \<Rightarrow> get_text_strip bio_div)"

definition bio_by_of :: "node \<Rightarrow> string" where
  "bio_by_of soup =
     (case find_tag (has_class ''p'' ''text-muted'') soup of
        None \<Rightarrow> []
      | Some contributor \<Rightarrow>
          (case find_tag (named ''a'') contributor of None \<Rightarrow> [] | Some a \<Rightarrow> get_text_strip a))"

definition plot_of :: "node \<Rightarrow> string" where
  "plot_of soup =
     (case find_tag (has_attr ''span'' ''id'' ''plotValueLabel'') soup of
        None \<Rightarrow> [] | Some plot_span \<Rightarrow> get_text_strip plot_span)"

definition inscription_of :: "node \<Rightarrow> string" where
  "inscription_of soup =
     (case find_tag (has_class ''div'' ''inscription'') soup of
        None \<Rightarrow> [] | Some inscription_section \<Rightarrow> get_text_strip inscription_section)"

text \<open>\<open>family_links[relation]\<close> after the loop of step 7.\<close>

definition family_links :: "node \<Rightarrow> string \<Rightarrow> string list" where
  "family_links soup relation =
     (case find_tag (has_attr ''section'' ''id'' ''family-members'') soup of
        None \<Rightarrow> []
      | Some family_section \<Rightarrow>
          (case find_tag (has_attr ''div'' ''data-relationship'' relation) family_section of
             None \<Rightarrow> []
           | Some rel_block \<Rightarrow> map get_text_strip (find_all hyperlink rel_block)))"

definition family_fields :: "node \<Rightarrow> dict" where
  "family_fields soup =
     [(''family_parents'', PStr (py_join '', '' (family_links soup ''parents''))),
      (''family_spouses'', PStr (py_join '', '' (family_links soup ''spouses''))),
      (''family_children'', PStr (py_join '', '' (family_links soup ''children'')))]"

text \<open>
  Each step is given the outcome of its lookups, so that the handler is modelled for a
  lookup that raises as well; the script's lookups are the ones above, which return.
\<close>

definition step5_with :: "pyexc + pyval \<Rightarrow> pyexc + pyval \<Rightarrow> stmt" where
  "step5_with bio contributor =
     try_except (seq (assign ''biography'' bio) (assign ''bio_by'' contributor))
       (\<lambda>e. log_stmt (''[DATA] Failed to extract biography info: '' @ exc_str e))"

definition step5 :: "node \<Rightarrow> stmt" where
  "step5 soup = step5_with (Inr (PStr (biography_of soup))) (Inr (PStr (bio_by_of soup)))"

definition step5_1_with :: "pyexc + pyval \<Rightarrow> stmt" where
  "step5_1_with plot =
     try_except (assign ''Plot'' plot)
       (\<lambda>e. seq (log_stmt (''[DATA] Failed to extract Plot: '' @ exc_str e))
                (setitem ''Plot'' (PStr [])))"

definition step5_1 :: "node \<Rightarrow> stmt" where
  "step5_1 soup = step5_1_with (Inr (PStr (plot_of soup)))"

definition step6_with :: "pyexc + pyval \<Rightarrow> stmt" where
  "step6_with inscription =
     try_except (assign ''inscription'' inscription)
       (\<lambda>e. log_stmt (''[DATA] Failed to extract inscription: '' @ exc_str e))"

definition step6 :: "node \<Rightarrow> stmt" where
  "step6 soup = step6_with (Inr (PStr (inscription_of soup)))"

definition step7_with :: "pyexc + dict \<Rightarrow> stmt" where
  "step7_with family =
     try_except (update_stmt family)
       (\<lambda>e. log_stmt (''[DATA] Failed to extract family info: '' @ exc_str e))"

definition step7 :: "node \<Rightarrow> stmt" where
  "step7 soup = step7_with (Inr (family_fields soup))"

section \<open>Step 10: the workbook\<close>

text \<open>
  \<open>pd.DataFrame([main_fields])\<close> is one row whose columns are the keys in their order.
  \<open>df.drop(columns=cols, errors=...)\<close> raises \<open>KeyError\<close> for labels that are not
  columns unless the errors are ignored.
\<close>

datatype drop_errors = Errors_raise | Errors_ignore

definition absent_labels :: "string list \<Rightarrow> dataframe \<Rightarrow> string list" where
  "absent_labels cols df = filter (\<lambda>c. c \<notin> set (map fst df)) cols"

definition df_drop :: "string list \<Rightarrow> drop_errors \<Rightarrow> dataframe \<Rightarrow> pyexc + dataframe" where
  "df_drop cols errors df =
     (if errors = Errors_raise \<and> absent_labels cols df \<noteq> []
      then Inl (KeyError (absent_labels cols df))
      else Inr (filter (\<lambda>kv. fst kv \<notin> set cols) df))"

definition columns_to_drop :: "string list" where
  "columns_to_drop = [''inscription'', ''family_parents'', ''family_spouses'', ''family_children'']"

text \<open>
  How the process ends: the script runs to its last line (exit status 0), raises
  \<open>SystemExit\<close> with a message, or dies of an exception nothing catches (both 1).
\<close>

datatype exit_status = Completed | SystemExit string | Uncaught pyexc

fun exit_code :: "exit_status \<Rightarrow> nat" where
  "exit_code Completed = 0"
| "exit_code (SystemExit m) = 1"
| "exit_code (Uncaught e) = 1"

text \<open>
  What a run leaves: how it ended, what it appended to \<open>errors.txt\<close>, the frame it
  handed to the writer, and the workbook on disk. The \<open>print\<close> of the path after the
  workbook is closed is taken to return.
\<close>

record outcome =
  status :: exit_status
  logged :: "string list"
  sink_input :: "dataframe option"
  output_file :: "dataframe option"

definition aborted :: "exit_status \<Rightarrow> state \<Rightarrow> outcome" where
  "aborted ex st = \<lparr>status = ex, logged = errors_txt st, sink_input = None, output_file = None\<rparr>"

definition save_failed :: "pyexc \<Rightarrow> dataframe option \<Rightarrow> state \<Rightarrow> outcome" where
  "save_failed e handed st =
     (aborted (SystemExit ''Excel save failed. Check errors.txt.'')
        (log_error (''[SAVE] Failed to save Excel: '' @ exc_str e) st))
     \<lparr>sink_input := handed\<rparr>"

definition step10 :: "libs \<Rightarrow> state \<Rightarrow> outcome" where
  "step10 L st =
     (case main_fields st of
        None \<Rightarrow> save_failed (NameError ''main_fields'') None st
      | Some d \<Rightarrow>
          (case df_drop columns_to_drop Errors_ignore d of
             Inl e \<Rightarrow> save_failed e None st
           | Inr main_df \<Rightarrow>
               (case to_excel L main_df of
                  Some m \<Rightarrow> save_failed (IOError m) (Some main_df) st
                | None \<Rightarrow>
                    \<lparr>status = Completed, logged = errors_txt st,
                     sink_input = Some main_df, output_file = Some main_df\<rparr>)))"

section \<open>The script\<close>

text \<open>The handler of step 3 (lines 44 to 46), run on the exception of its body.\<close>

definition step3_handler :: "pyexc \<Rightarrow> outcome" where
  "step3_handler e =
     aborted (SystemExit ''JS parsing failed. Check errors.txt.'')
       (log_error (''[CRITICAL] JS parsing failed: '' @ exc_str e) st0)"

text \<open>Steps 4 to 7 on the parsed page and the embedded object.\<close>

definition extract_all :: "libs \<Rightarrow> node \<Rightarrow> pyval \<Rightarrow> stmt" where
  "extract_all L soup data =
     seq (step4 L data) (seq (step5 soup) (seq (step5_1 soup) (seq (step6 soup) (step7 soup))))"

text \<open>
  \<open>main_fields\<close> after steps 5 to 7 have run on the dictionary \<open>d\<close> of step 4 without
  raising.
\<close>

definition assembled :: "node \<Rightarrow> dict \<Rightarrow> dict" where
  "assembled soup d =
     dict_update
       (dict_set ''inscription'' (PStr (inscription_of soup))
         (dict_set ''Plot'' (PStr (plot_of soup))
           (dict_set ''bio_by'' (PStr (bio_by_of soup))
             (dict_set ''biography'' (PStr (biography_of soup)) d))))
       (family_fields soup)"

text \<open>
  Steps 1 to 7: the state step 10 starts from, or how the run ended before it. Step 2
  (line 29) stands in no \<open>try\<close>: an exception of the parser ends the run there.
\<close>

definition assemble :: "libs \<Rightarrow> response \<Rightarrow> outcome + state" where
  "assemble L resp =
     (case resp of
        FetchFailed m \<Rightarrow>
          Inl (aborted (SystemExit ''Failed to fetch the page. Check errors.txt.'')
                 (log_error (''[CRITICAL] Failed to fetch page: '' @ m) st0))
      | Page markup \<Rightarrow>
          (case html_parser L markup of
             Inl m \<Rightarrow> Inl (aborted (Uncaught (ParserRejectedMarkup m)) st0)
           | Inr soup \<Rightarrow>
               (case extract_js L soup of
                  Inl e \<Rightarrow> Inl (step3_handler e)
                | Inr data \<Rightarrow>
                    (case extract_all L soup data st0 of
                       (Some e, st) \<Rightarrow> Inl (aborted (Uncaught e) st)
                     | (None, st) \<Rightarrow> Inr st))))"

definition run :: "libs \<Rightarrow> response \<Rightarrow> outcome" where
  "run L resp = (case assemble L resp of Inl out \<Rightarrow> out | Inr st \<Rightarrow> step10 L st)"

section \<open>An executable fragment of the libraries\<close>

text \<open>
  The theorems below hold for every behaviour of the libraries, or name what they need
  of it. To run the script on concrete pages, this section gives the libraries on a
  fragment of their input, following html.parser under bs4, and js2py on an object
  literal. \<open>Outside\<close> and \<open>None\<close> mean that the input is outside the fragment, not
  that the library fails.
\<close>

datatype 'a parsed = Outside | Rejected string | Parsed 'a

subsection \<open>html.parser under bs4\<close>

text \<open>
  The fragment: character data; the references \<open>&amp;\<close>, \<open>&lt;\<close>, \<open>&gt;\<close> and
  \<open>&quot;\<close>; start tags \<open><name k="v" ...>\<close> and end tags \<open></name>\<close> of the names
  in \<open>plain_tags\<close>, written in lower case, with double-quoted attribute values free of
  \<open>&\<close>, \<open><\<close> and \<open>>\<close> and no attribute twice; \<open><script>\<close>, whose content runs,
  unparsed, to the first \<open></script>\<close>; and a marked section \<open><![name]\<close> whose name,
  in lower case, is none of the status keywords: there html.parser (of Python 3.11)
  fails an assertion, which bs4 raises again as \<open>ParserRejectedMarkup\<close>.
\<close>

datatype token = TChar char | TStart string "(string \<times> string) list" | TEnd string | TScript string

datatype lexmode =
    M_data
  | M_amp string
  | M_lt
  | M_name string
  | M_attrs string "(string \<times> string) list"
  | M_attr_name string "(string \<times> string) list" string
  | M_attr_eq string "(string \<times> string) list" string
  | M_attr_val string "(string \<times> string) list" string string
  | M_after_val string "(string \<times> string) list"
  | M_end string
  | M_script string
  | M_bang
  | M_marked string
  | M_reject string
  | M_fail

definition plain_tags :: "string list" where
  "plain_tags = [''html'', ''head'', ''body'', ''div'', ''section'', ''p'', ''span'', ''a'', ''b'', ''i'',
                 ''script'']"

definition is_lower :: "char \<Rightarrow> bool" where
  "is_lower c = (97 \<le> (of_char c :: nat) \<and> (of_char c :: nat) \<le> 122)"

definition is_digit :: "char \<Rightarrow> bool" where
  "is_digit c = (48 \<le> (of_char c :: nat) \<and> (of_char c :: nat) \<le> 57)"

definition ascii_lower :: "char \<Rightarrow> char" where
  "ascii_lower c =
     (if 65 \<le> (of_char c :: nat) \<and> (of_char c :: nat) \<le> 90
      then char_of ((of_char c :: nat) + 32) else c)"

text \<open>bs4's \<open>ASCII_SPACES\<close>: space, newline, tab, form feed, carriage return.\<close>

definition ascii_space :: "char \<Rightarrow> bool" where
  "ascii_space c = (c = CHR 0x20 \<or> c = CHR 0x0A \<or> c = CHR 0x09 \<or> c = CHR 0x0C \<or> c = CHR 0x0D)"

definition entity :: "string \<Rightarrow> char option" where
  "entity nm =
     (if nm = ''amp'' then Some (CHR ''&'')
      else if nm = ''lt'' then Some (CHR ''<'')
      else if nm = ''gt'' then Some (CHR ''>'')
      else if nm = ''quot'' then Some (CHR 0x22)
      else None)"

definition emit_start :: "string \<Rightarrow> (string \<times> string) list \<Rightarrow> token list \<times> lexmode" where
  "emit_start n as =
     (if n \<in> set plain_tags
      then ([TStart n as], if n = ''script'' then M_script [] else M_data)
      else ([], M_fail))"

text \<open>The names a marked section may start with.\<close>

definition status_keywords :: "string list" where
  "status_keywords = [''temp'', ''cdata'', ''ignore'', ''include'', ''rcdata'', ''if'', ''else'', ''endif'']"

text \<open>
  One character of the input. The buffers of a mode hold what was read, last character
  first. In a script, \<open></script\<close> in any case must be the lower-case one with \<open>>\<close>
  next, and \<open><!--\<close> is outside the fragment.
\<close>

fun lex_step :: "lexmode \<Rightarrow> char \<Rightarrow> token list \<times> lexmode" where
  "lex_step M_data c =
     (if c = CHR ''<'' then ([], M_lt)
      else if c = CHR ''&'' then ([], M_amp [])
      else ([TChar c], M_data))"
| "lex_step (M_amp nm) c =
     (if c = CHR '';'' then (case entity (rev nm) of Some ch \<Rightarrow> ([TChar ch], M_data) | None \<Rightarrow> ([], M_fail))
      else if is_lower c then ([], M_amp (c # nm))
      else ([], M_fail))"
| "lex_step M_lt c =
     (if c = CHR ''/'' then ([], M_end [])
      else if c = CHR ''!'' then ([], M_bang)
      else if is_lower c then ([], M_name [c])
      else ([], M_fail))"
| "lex_step M_bang c = (if c = CHR ''['' then ([], M_marked []) else ([], M_fail))"
| "lex_step (M_marked nm) c =
     (if is_lower c then ([], M_marked (c # nm))
      else if c = CHR '']'' \<and> nm \<noteq> [] \<and> rev nm \<notin> set status_keywords then ([], M_reject (rev nm))
      else ([], M_fail))"
| "lex_step (M_reject nm) c = ([], M_reject nm)"
| "lex_step (M_name nm) c =
     (if is_lower c \<or> is_digit c then ([], M_name (c # nm))
      else if c = CHR ''>'' then emit_start (rev nm) []
      else if ascii_space c then ([], M_attrs (rev nm) [])
      else ([], M_fail))"
| "lex_step (M_attrs n as) c =
     (if ascii_space c then ([], M_attrs n as)
      else if c = CHR ''>'' then emit_start n (rev as)
      else if is_lower c then ([], M_attr_name n as [c])
      else ([], M_fail))"
| "lex_step (M_attr_name n as an) c =
     (if is_lower c \<or> is_digit c \<or> c = CHR ''-'' then ([], M_attr_name n as (c # an))
      else if c = CHR ''='' \<and> rev an \<notin> set (map fst as) then ([], M_attr_eq n as (rev an))
      else ([], M_fail))"
| "lex_step (M_attr_eq n as an) c =
     (if c = CHR 0x22 then ([], M_attr_val n as an []) else ([], M_fail))"
| "lex_step (M_attr_val n as an v) c =
     (if c = CHR 0x22 then ([], M_after_val n ((an, rev v) # as))
      else if c = CHR ''&'' \<or> c = CHR ''<'' \<or> c = CHR ''>'' then ([], M_fail)
      else ([], M_attr_val n as an (c # v)))"
| "lex_step (M_after_val n as) c =
     (if ascii_space c then ([], M_attrs n as)
      else if c = CHR ''>'' then emit_start n (rev as)
      else ([], M_fail))"
| "lex_step (M_end nm) c =
     (if is_lower c \<or> is_digit c then ([], M_end (c # nm))
      else if c = CHR ''>'' \<and> rev nm \<in> set plain_tags then ([TEnd (rev nm)], M_data)
      else ([], M_fail))"
| "lex_step (M_script buf) c =
     (if map ascii_lower (take 8 buf) = rev ''</script''
      then (if c = CHR ''>'' \<and> take 8 buf = rev ''</script''
            then ([TScript (rev (drop 8 buf)), TEnd ''script''], M_data)
            else ([], M_fail))
      else if take 4 (c # buf) = rev ''<!--'' then ([], M_fail)
      else ([], M_script (c # buf)))"
| "lex_step M_fail c = ([], M_fail)"

text \<open>The tokens of a string, collected last token first; the input must end in data.\<close>

fun rejected_keyword :: "lexmode \<Rightarrow> string option" where
  "rejected_keyword (M_reject nm) = Some nm"
| "rejected_keyword m = None"

fun lex :: "lexmode \<Rightarrow> token list \<Rightarrow> string \<Rightarrow> token list parsed" where
  "lex m acc [] = (if m = M_data then Parsed (rev acc) else Outside)"
| "lex m acc (c # cs) =
     (case lex_step m c of
        (ts, m') \<Rightarrow>
          if m' = M_fail then Outside
          else if rejected_keyword m' \<noteq> None then Rejected (the (rejected_keyword m'))
          else lex m' (rev ts @ acc) cs)"

text \<open>
  bs4's tree builder. A frame is an open tag with the children it has so far, last child
  first; the last frame is the document. \<open>end_data\<close> closes the pending character data:
  a string of ASCII spaces only becomes one newline or one space.
\<close>

type_synonym frame = "string \<times> (string \<times> string) list \<times> node list"

definition collapse :: "string \<Rightarrow> string" where
  "collapse s =
     (if list_all ascii_space s then (if CHR 0x0A \<in> set s then [CHR 0x0A] else '' '') else s)"

fun add_child :: "node \<Rightarrow> frame list \<Rightarrow> frame list" where
  "add_child nd [] = []"
| "add_child nd ((n, as, cs) # fs) = (n, as, nd # cs) # fs"

definition end_data :: "string \<Rightarrow> frame list \<Rightarrow> frame list" where
  "end_data buf fs = (if buf = [] then fs else add_child (Text (collapse (rev buf))) fs)"

text \<open>\<open>popTag\<close>: the innermost open tag is closed and becomes a child of the next.\<close>

fun pop_tag :: "frame list \<Rightarrow> frame list" where
  "pop_tag ((n, as, cs) # f # fs) = add_child (Tag n as (rev cs)) (f # fs)"
| "pop_tag fs = fs"

text \<open>
  \<open>_popToTag(name)\<close>: when a tag of that name is open, the tags are popped down to the
  innermost one of that name, and that one too; when none is, nothing is popped.
\<close>

fun pop_to :: "string \<Rightarrow> frame list \<Rightarrow> frame list" where
  "pop_to name ((n, as, cs) # f # fs) =
     (if n = name then pop_tag ((n, as, cs) # f # fs)
      else pop_to name (pop_tag ((n, as, cs) # f # fs)))"
| "pop_to name fs = fs"

definition open_names :: "frame list \<Rightarrow> string list" where
  "open_names fs = map fst (butlast fs)"

definition end_tag :: "string \<Rightarrow> frame list \<Rightarrow> frame list" where
  "end_tag n fs = (if n \<in> set (open_names fs) then pop_to n fs else fs)"

text \<open>The content of a script: one string of the class \<open>Script\<close>, none when it is empty.\<close>

definition script_data :: "string \<Rightarrow> frame list \<Rightarrow> frame list" where
  "script_data s fs = (if s = [] then fs else add_child (Special (collapse s)) fs)"

fun close_all :: "nat \<Rightarrow> frame list \<Rightarrow> frame list" where
  "close_all 0 fs = fs"
| "close_all (Suc k) fs = close_all k (pop_tag fs)"

fun build :: "string \<Rightarrow> frame list \<Rightarrow> token list \<Rightarrow> node" where
  "build buf fs [] =
     (case close_all (length fs) (end_data buf fs) of
        (n, as, cs) # rest \<Rightarrow> Tag n as (rev cs)
      | [] \<Rightarrow> document [])"
| "build buf fs (TChar c # ts) = build (c # buf) fs ts"
| "build buf fs (TStart n as # ts) = build [] ((n, as, []) # end_data buf fs) ts"
| "build buf fs (TEnd n # ts) = build [] (end_tag n (end_data buf fs)) ts"
| "build buf fs (TScript s # ts) = build [] (script_data s (end_data buf fs)) ts"

definition html_fragment :: "string \<Rightarrow> node parsed" where
  "html_fragment markup =
     (case lex M_data [] markup of
        Outside \<Rightarrow> Outside
      | Rejected nm \<Rightarrow> Rejected nm
      | Parsed ts \<Rightarrow> Parsed (build [] [(''[document]'', [], [])] ts))"

text \<open>
  Character data alone, with no \<open><\<close> and no \<open>&\<close>, is what the parser reads as one
  string: the document it builds has that string as its only child, or no child when
  the markup is empty.
\<close>

definition plain_text :: "string \<Rightarrow> bool" where
  "plain_text t = (CHR ''<'' \<notin> set t \<and> CHR ''&'' \<notin> set t)"

definition text_document :: "string \<Rightarrow> node" where
  "text_document t = document (if t = [] then [] else [Text (collapse t)])"

definition reads_character_data :: "(string \<Rightarrow> node) \<Rightarrow> bool" where
  "reads_character_data parser = (\<forall>t. plain_text t \<longrightarrow> parser t = text_document t)"

subsection \<open>js2py on an object literal\<close>

text \<open>
  The fragment: \<open>var findagrave = {...}; findagrave;\<close> where the braces hold
  \<open>"key":value\<close> items separated by commas, with spaces allowed around them, no key
  twice; a value is a double-quoted string (with the escapes \<open>\"\<close>, \<open>\\\<close> and \<open>\/\<close>
  and no control character), a decimal integer without sign or leading zero and of at
  most fifteen digits (which a double holds exactly), \<open>true\<close>, \<open>false\<close> or \<open>null\<close>.
  The result is the wrapped object.
\<close>

datatype jsmode =
    J_open
  | J_first
  | J_key string
  | J_colon string
  | J_value string
  | J_str string string
  | J_esc string string
  | J_word string string
  | J_after
  | J_next
  | J_fail

definition js_word :: "string \<Rightarrow> pyval option" where
  "js_word w =
     (if w = ''true'' then Some (PBool True)
      else if w = ''false'' then Some (PBool False)
      else if w = ''null'' then Some PNone
      else if w \<noteq> [] \<and> length w \<le> 15 \<and> list_all is_digit w \<and> (length w = 1 \<or> hd w \<noteq> CHR ''0'')
      then Some (PInt (foldl (\<lambda>n c. 10 * n + int (of_char c - 48)) 0 w))
      else None)"

definition js_item :: "string \<Rightarrow> pyval option \<Rightarrow> dict \<Rightarrow> jsmode \<Rightarrow> dict \<times> jsmode" where
  "js_item k v d m =
     (case v of
        None \<Rightarrow> (d, J_fail)
      | Some x \<Rightarrow> if k \<in> set (map fst d) \<or> k = ''__proto__'' then (d, J_fail) else (d @ [(k, x)], m))"

text \<open>One character inside the braces; \<open>None\<close> for the mode when the closing brace is read.\<close>

fun js_step :: "jsmode \<Rightarrow> dict \<Rightarrow> char \<Rightarrow> dict \<times> jsmode option" where
  "js_step J_open d c = (d, Some (if c = CHR ''{'' then J_first else J_fail))"
| "js_step J_first d c =
     (if c = CHR '' '' then (d, Some J_first)
      else if c = CHR 0x22 then (d, Some (J_key []))
      else if c = CHR ''}'' then (d, None)
      else (d, Some J_fail))"
| "js_step (J_key k) d c =
     (if c = CHR 0x22 then (d, Some (J_colon (rev k)))
      else if c = CHR 0x5C \<or> (of_char c :: nat) < 32 then (d, Some J_fail)
      else (d, Some (J_key (c # k))))"
| "js_step (J_colon k) d c =
     (if c = CHR '' '' then (d, Some (J_colon k))
      else if c = CHR '':'' then (d, Some (J_value k))
      else (d, Some J_fail))"
| "js_step (J_value k) d c =
     (if c = CHR '' '' then (d, Some (J_value k))
      else if c = CHR 0x22 then (d, Some (J_str k []))
      else if is_lower c \<or> is_digit c then (d, Some (J_word k [c]))
      else (d, Some J_fail))"
| "js_step (J_str k s) d c =
     (if c = CHR 0x22 then (case js_item k (Some (PStr (rev s))) d J_after of (d', m) \<Rightarrow> (d', Some m))
      else if c = CHR 0x5C then (d, Some (J_esc k s))
      else if (of_char c :: nat) < 32 then (d, Some J_fail)
      else (d, Some (J_str k (c # s))))"
| "js_step (J_esc k s) d c =
     (if c = CHR 0x22 \<or> c = CHR 0x5C \<or> c = CHR ''/'' then (d, Some (J_str k (c # s)))
      else (d, Some J_fail))"
| "js_step (J_word k w) d c =
     (if is_lower c \<or> is_digit c then (d, Some (J_word k (c # w)))
      else if c = CHR '' '' then (case js_item k (js_word (rev w)) d J_after of (d', m) \<Rightarrow> (d', Some m))
      else if c = CHR '','' then (case js_item k (js_word (rev w)) d J_next of (d', m) \<Rightarrow> (d', Some m))
      else if c = CHR ''}'' then
        (case js_item k (js_word (rev w)) d J_after of (d', m) \<Rightarrow> (d', if m = J_fail then Some J_fail else None))
      else (d, Some J_fail))"
| "js_step J_after d c =
     (if c = CHR '' '' then (d, Some J_after)
      else if c = CHR '','' then (d, Some J_next)
      else if c = CHR ''}'' then (d, None)
      else (d, Some J_fail))"
| "js_step J_next d c =
     (if c = CHR '' '' then (d, Some J_next)
      else if c = CHR 0x22 then (d, Some (J_key []))
      else (d, Some J_fail))"
| "js_step J_fail d c = (d, Some J_fail)"

text \<open>The object literal at the start of \<open>s\<close>: its items and what follows it.\<close>

fun js_object :: "jsmode \<Rightarrow> dict \<Rightarrow> string \<Rightarrow> (dict \<times> string) option" where
  "js_object m d [] = None"
| "js_object m d (c # cs) =
     (case js_step m d c of
        (d', r) \<Rightarrow>
          if r = None then Some (d', cs)
          else if r = Some J_fail then None
          else js_object (the r) d' cs)"

definition js_fragment :: "string \<Rightarrow> pyval option" where
  "js_fragment code =
     (case strip_prefix ''var findagrave = '' code of
        None \<Rightarrow> None
      | Some lit \<Rightarrow>
          (case js_object J_open [] lit of
             None \<Rightarrow> None
           | Some (d, rest) \<Rightarrow> if rest = ''; findagrave;'' then Some (PObj d) else None))"

subsection \<open>The libraries on the fragment\<close>

text \<open>
  \<open>fragment_parser\<close> is the tree of a markup of the fragment (a placeholder elsewhere),
  \<open>fragment_markup\<close> the constructor with its exception: for a rejected markup the
  message of bs4 4.12, which quotes the assertion of html.parser; outside the fragment
  an error that says so, as the evaluator's. The runs evaluated below stay inside the
  fragment. The workbook is written. \<open>no_len\<close> is the message of bs4 up to 4.12 for a
  markup without a length.
\<close>

definition fragment_parser :: "string \<Rightarrow> node" where
  "fragment_parser markup =
     (case html_fragment markup of Outside \<Rightarrow> document [] | Rejected nm \<Rightarrow> document [] | Parsed d \<Rightarrow> d)"

definition rejected_message :: "string \<Rightarrow> string" where
  "rejected_message nm =
     ''The markup you provided was rejected by the parser. Trying a different parser or a ''
     @ ''different encoding may help.'' @ [CHR 0x0A, CHR 0x0A]
     @ ''Original exception(s) from parser:'' @ [CHR 0x0A]
     @ '' AssertionError: unknown status keyword '' @ [CHR 0x27] @ nm @ [CHR 0x27]
     @ '' in marked section''"

definition fragment_markup :: "string \<Rightarrow> string + node" where
  "fragment_markup markup =
     (case html_fragment markup of
        Outside \<Rightarrow> Inl ''outside the fragment''
      | Rejected nm \<Rightarrow> Inl (rejected_message nm)
      | Parsed d \<Rightarrow> Inr d)"

definition fragment_eval :: "string \<Rightarrow> string + pyval" where
  "fragment_eval code =
     (case js_fragment code of Some v \<Rightarrow> Inr v | None \<Rightarrow> Inl ''outside the fragment'')"

fun no_len :: "pyval \<Rightarrow> string" where
  "no_len PNone = ''object of type '' @ [CHR 0x27] @ ''NoneType'' @ [CHR 0x27] @ '' has no len()''"
| "no_len (PBool b) = ''object of type '' @ [CHR 0x27] @ ''bool'' @ [CHR 0x27] @ '' has no len()''"
| "no_len (PInt n) = ''object of type '' @ [CHR 0x27] @ ''int'' @ [CHR 0x27] @ '' has no len()''"
| "no_len (PFloat m e) = ''object of type '' @ [CHR 0x27] @ ''float'' @ [CHR 0x27] @ '' has no len()''"
| "no_len v = [CHR 0x27] @ ''NoneType'' @ [CHR 0x27] @ '' object is not callable''"

definition fragment_libs :: libs where
  "fragment_libs =
     \<lparr>html_parser = fragment_markup, markup_error = no_len, eval_js = fragment_eval,
      to_excel = (\<lambda>df. None)\<rparr>"


subsection \<open>Pages for the concrete runs\<close>

text \<open>An evaluator that rejects its program, as js2py does a literal that is no JavaScript.\<close>

definition rejecting_libs :: libs where
  "rejecting_libs = fragment_libs\<lparr>eval_js := (\<lambda>code. Inl ''SyntaxError'')\<rparr>"

definition page_no_script :: string where
  "page_no_script = ''<p>hello</p>''"

text \<open>A page without a script that html.parser rejects.\<close>

definition page_rejected :: string where
  "page_rejected = ''<p>hello</p><![x]]>''"

definition page_no_snippets :: string where
  "page_no_snippets = ''<script>var findagrave = {}; var x = 1;</script>''"

definition page_truncated :: string where
  "page_truncated = ''<script>var findagrave = {\"fullName\":}; var htmlSnippets = {};</script>''"

definition page_no_full_name :: string where
  "page_no_full_name =
     ''<script>var findagrave = {\"firstName\":\"John\"}; var htmlSnippets = {};</script>''"

text \<open>The tree of \<open>page_no_full_name\<close>.\<close>

definition soup_no_full_name :: node where
  "soup_no_full_name =
     document [Tag ''script'' []
       [Special ''var findagrave = {\"firstName\":\"John\"}; var htmlSnippets = {};'']]"

text \<open>The declaration of the end-to-end scenario, the name it holds and the payload.\<close>

definition scenario_name :: string where
  "scenario_name = ''<span class=\"prefix\">Pvt</span> John Doe''"

definition scenario_object :: string where
  "scenario_object =
     ''{\"fullName\":\"<span class='' @ [CHR 0x5C] @ ''\"prefix'' @ [CHR 0x5C]
       @ ''\">Pvt</span> John Doe\",\"firstName\":\"John\",\"lastName\":\"Doe\",''
       @ ''\"birthYear\":1900,\"deathYear\":1944}''"

definition scenario_decl :: string where
  "scenario_decl = ''var findagrave = '' @ scenario_object @ ''; var htmlSnippets = {};''"

definition scenario_payload :: pyval where
  "scenario_payload =
     PObj [(''fullName'', PStr scenario_name), (''firstName'', PStr ''John''),
           (''lastName'', PStr ''Doe''), (''birthYear'', PInt 1900), (''deathYear'', PInt 1944)]"

definition page_scenario :: string where
  "page_scenario = ''<script>'' @ scenario_decl @ ''</script>''"

definition page_family :: string where
  "page_family =
     ''<script>var findagrave = {\"fullName\":\"A B\"}; var htmlSnippets = {};</script>''
     @ ''<div id=\"partBio\">bio</div><div class=\"inscription\">RIP</div>''
     @ ''<section id=\"family-members\"><div data-relationship=\"parents\">''
     @ ''<a href=\"x\"> P1 </a><a>no</a><b><a href=\"y\">P2</a></b></div></section>''"

text \<open>The tree of \<open>page_family\<close>.\<close>

definition family_soup :: node where
  "family_soup =
     document
       [Tag ''script'' [] [Special ''var findagrave = {\"fullName\":\"A B\"}; var htmlSnippets = {};''],
        Tag ''div'' [(''id'', ''partBio'')] [Text ''bio''],
        Tag ''div'' [(''class'', ''inscription'')] [Text ''RIP''],
        Tag ''section'' [(''id'', ''family-members'')]
          [Tag ''div'' [(''data-relationship'', ''parents'')]
             [Tag ''a'' [(''href'', ''x'')] [Text '' P1 ''],
              Tag ''a'' [] [Text ''no''],
              Tag ''b'' [] [Tag ''a'' [(''href'', ''y'')] [Text ''P2'']]]]]"

text \<open>The dictionary step 4 builds from the payload of \<open>page_family\<close>.\<close>

definition family_record :: dict where
  "family_record = (''full_name'', PStr ''A B'') # map (\<lambda>ka. (fst ka, PNone)) field_table"

section \<open>Properties\<close>

subsection \<open>Strings, dictionaries and the steps\<close>

lemma last_dropWhile: "dropWhile P xs \<noteq> [] \<Longrightarrow> last (dropWhile P xs) = last xs"
  by (induction xs) (auto split: if_splits)

lemma strip_ends:
  assumes "strip x \<noteq> []"
  shows "\<not> isspace (hd (strip x)) \<and> \<not> isspace (last (strip x))"
proof -
  define y where "y = dropWhile isspace x"
  define z where "z = dropWhile isspace (rev y)"
  have sz: "strip x = rev z" by (simp add: strip_def y_def z_def)
  with assms have znil: "z \<noteq> []" by simp
  then have ynil: "y \<noteq> []" by (auto simp: z_def)
  have "\<not> isspace (hd z)" using znil unfolding z_def by (rule hd_dropWhile)
  moreover have "last z = last (rev y)" using znil unfolding z_def by (rule last_dropWhile)
  moreover have "\<not> isspace (hd y)" using ynil unfolding y_def by (rule hd_dropWhile)
  ultimately show ?thesis using znil ynil by (simp add: sz hd_rev last_rev)
qed

lemma strip_id:
  assumes "x \<noteq> []" "\<not> isspace (hd x)" "\<not> isspace (last x)"
  shows "strip x = x"
proof -
  have a: "dropWhile isspace x = x" using assms by (cases x) auto
  have "rev x \<noteq> []" "\<not> isspace (hd (rev x))" using assms by (auto simp: hd_rev)
  then have b: "dropWhile isspace (rev x) = rev x" by (cases "rev x") auto
  show ?thesis by (simp add: strip_def a b)
qed

lemma strip_keeps_prefix:
  assumes "p \<noteq> []" "\<not> isspace (hd p)" "\<not> isspace (last p)"
  shows "\<exists>r. strip (p @ m) = p @ r"
proof -
  have a: "dropWhile isspace (p @ m) = p @ m" using assms by (cases p) auto
  have "rev p \<noteq> []" "\<not> isspace (hd (rev p))" using assms by (auto simp: hd_rev)
  then have b: "dropWhile isspace (rev p) = rev p" by (cases "rev p") auto
  show ?thesis
  proof (cases "\<forall>c\<in>set m. isspace c")
    case True
    then have "dropWhile isspace (rev m @ rev p) = dropWhile isspace (rev p)"
      by (intro dropWhile_append2) simp
    then have "dropWhile isspace (rev m @ rev p) = rev p" by (simp add: b)
    then show ?thesis by (simp add: strip_def a)
  next
    case False
    then have "dropWhile isspace (rev m @ rev p) = dropWhile isspace (rev m) @ rev p"
      by (auto simp: dropWhile_append1)
    then show ?thesis by (simp add: strip_def a)
  qed
qed

lemma map_of_dict_set: "map_of (dict_set k v d) = (map_of d)(k \<mapsto> v)"
  by (induction d) (auto simp: fun_eq_iff)

lemma keys_dict_set: "set (dict_keys (dict_set k v d)) = insert k (set (dict_keys d))"
  by (induction d) (auto simp: dict_keys_def)

lemma setitem_bound:
  "main_fields st = Some d \<Longrightarrow> setitem k v st = (None, st\<lparr>main_fields := Some (dict_set k v d)\<rparr>)"
  by (simp add: setitem_def)

lemma setitem_unbound:
  "main_fields st = None \<Longrightarrow> setitem k v st = (Some (NameError ''main_fields''), st)"
  by (simp add: setitem_def)

lemma step5_bound:
  "main_fields st = Some d \<Longrightarrow>
   step5 soup st = (None, st\<lparr>main_fields :=
      Some (dict_set ''bio_by'' (PStr (bio_by_of soup)) (dict_set ''biography'' (PStr (biography_of soup)) d))\<rparr>)"
  by (simp add: step5_def step5_with_def try_except_def seq_def assign_def setitem_def)

lemma step5_unbound:
  "main_fields st = None \<Longrightarrow>
   step5 soup st = (None, log_error (''[DATA] Failed to extract biography info: '' @ exc_str (NameError ''main_fields'')) st)"
  by (simp add: step5_def step5_with_def try_except_def seq_def assign_def setitem_def log_stmt_def)

lemma step5_1_bound:
  "main_fields st = Some d \<Longrightarrow>
   step5_1 soup st = (None, st\<lparr>main_fields := Some (dict_set ''Plot'' (PStr (plot_of soup)) d)\<rparr>)"
  by (simp add: step5_1_def step5_1_with_def try_except_def seq_def assign_def setitem_def)

lemma step5_1_unbound:
  "main_fields st = None \<Longrightarrow>
   step5_1 soup st = (Some (NameError ''main_fields''),
      log_error (''[DATA] Failed to extract Plot: '' @ exc_str (NameError ''main_fields'')) st)"
  by (simp add: step5_1_def step5_1_with_def try_except_def seq_def assign_def setitem_def log_stmt_def log_error_def)

lemma step6_bound:
  "main_fields st = Some d \<Longrightarrow>
   step6 soup st = (None, st\<lparr>main_fields := Some (dict_set ''inscription'' (PStr (inscription_of soup)) d)\<rparr>)"
  by (simp add: step6_def step6_with_def try_except_def seq_def assign_def setitem_def)

lemma step7_bound:
  "main_fields st = Some d \<Longrightarrow>
   step7 soup st = (None, st\<lparr>main_fields := Some (dict_update d (family_fields soup))\<rparr>)"
  by (simp add: step7_def step7_with_def try_except_def update_stmt_def)

lemma extract_all_ok:
  assumes "normalize L data = Inr d"
  shows "extract_all L soup data st0 = (None, \<lparr>errors_txt = [], main_fields = Some (assembled soup d)\<rparr>)"
  using assms
  by (simp add: extract_all_def seq_def step4_def st0_def step5_bound step5_1_bound step6_bound
      step7_bound assembled_def)

lemma extract_all_failed:
  assumes "normalize L data = Inl e"
  shows "extract_all L soup data st0 =
     (Some (NameError ''main_fields''),
      \<lparr>errors_txt =
         [strip (''[DATA] Failed to extract main_fields: '' @ exc_str e) @ [CHR 0x0A],
          strip (''[DATA] Failed to extract biography info: '' @ exc_str (NameError ''main_fields'')) @ [CHR 0x0A],
          strip (''[DATA] Failed to extract Plot: '' @ exc_str (NameError ''main_fields'')) @ [CHR 0x0A]],
       main_fields = None\<rparr>)"
  using assms
  by (simp add: extract_all_def seq_def step4_def st0_def log_stmt_def log_error_def
      step5_unbound step5_1_unbound)

lemma dict_keys_simps: "dict_keys [] = []" "dict_keys (p # ps) = fst p # dict_keys ps"
  by (simp_all add: dict_keys_def)

lemma keys_dict_update: "set (dict_keys (dict_update d kvs)) = set (dict_keys d) \<union> set (dict_keys kvs)"
  by (induction d kvs rule: dict_update.induct) (auto simp: keys_dict_set dict_keys_simps)

lemma map_of_dict_update: "map_of (dict_update d kvs) = map_of d ++ map_of (rev kvs)"
  by (induction d kvs rule: dict_update.induct) (auto simp: map_of_dict_set fun_eq_iff map_add_def split: option.splits)

lemma map_of_drop:
  "map_of (filter (\<lambda>kv. fst kv \<notin> set cols) d) k = (if k \<in> set cols then None else map_of d k)"
  by (induction d) auto

lemma keys_drop:
  "set (dict_keys (filter (\<lambda>kv. fst kv \<notin> set cols) d)) = set (dict_keys d) - set cols"
  by (induction d) (auto simp: dict_keys_simps)

lemma df_drop_ignore:
  "df_drop cols Errors_ignore d = Inr (filter (\<lambda>kv. fst kv \<notin> set cols) d)"
  by (simp add: df_drop_def)

lemma keys_assembled:
  "set (dict_keys (assembled soup d)) =
     set (dict_keys d) \<union> {''biography'', ''bio_by'', ''Plot'', ''inscription'',
                           ''family_parents'', ''family_spouses'', ''family_children''}"
  by (auto simp: assembled_def keys_dict_update keys_dict_set family_fields_def dict_keys_simps)

subsection \<open>Step 3 fails\<close>

lemma critical_prefix: "\<exists>r. strip (''[CRITICAL]'' @ m) = ''[CRITICAL]'' @ r"
  by (rule strip_keeps_prefix) (simp_all add: isspace_def)

lemma step3_line:
  "logged (step3_handler e) = [strip (''[CRITICAL] JS parsing failed: '' @ exc_str e) @ [CHR 0x0A]]"
  by (simp add: step3_handler_def aborted_def log_error_def st0_def)

text \<open>
  What follows a prefix that starts with no space: when the stripped line is the prefix
  and a text that starts with no space, that text is the stripped message.
\<close>

lemma strip_after_prefix:
  assumes p: "p \<noteq> []" "\<not> isspace (hd p)"
    and eq: "strip (p @ m) = p @ t"
    and t: "t \<noteq> []" "\<not> isspace (hd t)"
  shows "strip m = t"
proof -
  have a: "dropWhile isspace (p @ m) = p @ m" using p by (cases p) auto
  have s: "strip (p @ m) = rev (dropWhile isspace (rev m @ rev p))"
    by (simp add: strip_def a)
  show ?thesis
  proof (cases "\<forall>c\<in>set m. isspace c")
    case True
    then have "dropWhile isspace (rev m @ rev p) = dropWhile isspace (rev p)"
      by (intro dropWhile_append2) simp
    with s eq have "p @ t = rev (dropWhile isspace (rev p))" by simp
    then have "length (p @ t) = length (dropWhile isspace (rev p))" by simp
    also have "\<dots> \<le> length (rev p)" by (rule length_dropWhile_le)
    finally show ?thesis using t by simp
  next
    case False
    then have "dropWhile isspace (rev m @ rev p) = dropWhile isspace (rev m) @ rev p"
      by (auto simp: dropWhile_append1)
    with s eq have "p @ t = p @ rev (dropWhile isspace (rev m))" by simp
    then have r: "dropWhile isspace (rev m) = rev t" by (simp add: rev_swap)
    have "rev m = takeWhile isspace (rev m) @ dropWhile isspace (rev m)" by simp
    then have "rev m = takeWhile isspace (rev m) @ rev t" by (simp only: r)
    then have "rev (rev m) = rev (takeWhile isspace (rev m) @ rev t)" by (rule arg_cong)
    then have m: "m = t @ rev (takeWhile isspace (rev m))" by simp
    then have "hd m = hd t" using t by (metis hd_append2)
    moreover from m t have "m \<noteq> []" by auto
    ultimately have "dropWhile isspace m = m" using t by (cases m) auto
    then show ?thesis by (simp add: strip_def r)
  qed
qed

lemma missing_line:
  "strip (''[CRITICAL] JS parsing failed: '' @ missing_object)
     = ''[CRITICAL] JS parsing failed: '' @ missing_object"
  by (rule strip_id) (simp_all add: missing_object_def isspace_def)

lemma failed_line:
  "strip (''[CRITICAL] JS parsing failed: '' @ failed_to_extract)
     = ''[CRITICAL] JS parsing failed: '' @ failed_to_extract"
  by (rule strip_id) (simp_all add: failed_to_extract_def isspace_def)

lemma js_line_differs:
  assumes "t \<noteq> []" "\<not> isspace (hd t)"
    and "strip (''[CRITICAL] JS parsing failed: '' @ t) = ''[CRITICAL] JS parsing failed: '' @ t"
    and "strip m \<noteq> t"
  shows "logged (step3_handler (JsException m)) \<noteq> logged (step3_handler (ValueError t))"
proof
  assume "logged (step3_handler (JsException m)) = logged (step3_handler (ValueError t))"
  then have "strip (''[CRITICAL] JS parsing failed: '' @ m) = strip (''[CRITICAL] JS parsing failed: '' @ t)"
    unfolding step3_line exc_str.simps by (simp only: list.inject append_same_eq simp_thms)
  then have "strip (''[CRITICAL] JS parsing failed: '' @ m) = ''[CRITICAL] JS parsing failed: '' @ t"
    by (simp only: assms(3))
  then have "strip m = t"
    by (rule strip_after_prefix [rotated 2, OF _ assms(1) assms(2)]) (simp_all add: isspace_def)
  with assms(4) show False by simp
qed

text \<open>
  Step 2 (line 29) stands before the \<open>try\<close> of step 3: when the parser rejects the
  page, the exception is caught nowhere and the run ends with nothing logged.
\<close>

lemma rejected_markup_uncaught:
  "html_parser L markup = Inl m \<Longrightarrow>
   run L (Page markup)
     = \<lparr>status = Uncaught (ParserRejectedMarkup m), logged = [], sink_input = None, output_file = None\<rparr>"
  by (simp add: run_def assemble_def aborted_def st0_def)

text \<open>
  Claim C1, as amended. When the parser returns a tree for the page and step 3 fails on
  it, the run ends in \<open>SystemExit\<close> (exit status 1) after one line that starts with
  \<open>[CRITICAL]\<close> is appended to the error log, and nothing is handed to the writer or
  written. Step 3 fails when no script element of the tree declares \<open>findagrave\<close>,
  when the object literal cannot be isolated, and when js2py rejects it. The line of the
  missing block differs from the line of a literal that cannot be isolated, and from the
  line of a literal that js2py rejects unless the message of js2py is, up to surrounding
  white space, the very text of the missing block.
\<close>

theorem js_failure_aborts:
  assumes "html_parser L markup = Inr soup"
  shows "(find_script soup = None \<longrightarrow>
      run L (Page markup) = step3_handler (ValueError missing_object))
   \<and> (\<forall>tg raw. find_script soup = Some tg \<and> tag_string tg = Some raw
         \<and> re_search_object raw = None \<longrightarrow>
      run L (Page markup) = step3_handler (ValueError failed_to_extract))
   \<and> (\<forall>tg raw g m. find_script soup = Some tg \<and> tag_string tg = Some raw
         \<and> re_search_object raw = Some g \<and> eval_js L (js_code g) = Inl m \<longrightarrow>
      run L (Page markup) = step3_handler (JsException m))
   \<and> (\<forall>e. status (step3_handler e) = SystemExit ''JS parsing failed. Check errors.txt.''
         \<and> exit_code (status (step3_handler e)) \<noteq> 0
         \<and> (\<exists>r. logged (step3_handler e) = [''[CRITICAL]'' @ r])
         \<and> sink_input (step3_handler e) = None
         \<and> output_file (step3_handler e) = None)
   \<and> logged (step3_handler (ValueError missing_object))
       \<noteq> logged (step3_handler (ValueError failed_to_extract))
   \<and> (\<forall>m. strip m \<noteq> missing_object \<longrightarrow>
         logged (step3_handler (JsException m)) \<noteq> logged (step3_handler (ValueError missing_object)))"
proof (intro conjI allI impI)
  assume "find_script soup = None"
  then show "run L (Page markup) = step3_handler (ValueError missing_object)"
    using assms by (simp add: run_def assemble_def extract_js_def)
next
  fix tg raw
  assume "find_script soup = Some tg \<and> tag_string tg = Some raw \<and> re_search_object raw = None"
  then show "run L (Page markup) = step3_handler (ValueError failed_to_extract)"
    using assms by (simp add: run_def assemble_def extract_js_def)
next
  fix tg raw g m
  assume "find_script soup = Some tg \<and> tag_string tg = Some raw
         \<and> re_search_object raw = Some g \<and> eval_js L (js_code g) = Inl m"
  then show "run L (Page markup) = step3_handler (JsException m)"
    using assms by (simp add: run_def assemble_def extract_js_def)
next
  fix e
  show "status (step3_handler e) = SystemExit ''JS parsing failed. Check errors.txt.''"
    by (simp add: step3_handler_def aborted_def)
  show "exit_code (status (step3_handler e)) \<noteq> 0"
    by (simp add: step3_handler_def aborted_def)
  show "sink_input (step3_handler e) = None" "output_file (step3_handler e) = None"
    by (simp_all add: step3_handler_def aborted_def)
  from critical_prefix [of "'' JS parsing failed: '' @ exc_str e"]
  obtain r where "strip (''[CRITICAL]'' @ '' JS parsing failed: '' @ exc_str e) = ''[CRITICAL]'' @ r" ..
  then show "\<exists>r. logged (step3_handler e) = [''[CRITICAL]'' @ r]"
    by (simp add: step3_handler_def aborted_def log_error_def st0_def)
next
  show "logged (step3_handler (ValueError missing_object))
       \<noteq> logged (step3_handler (ValueError failed_to_extract))"
    unfolding step3_line exc_str.simps missing_line failed_line
    by (simp add: missing_object_def failed_to_extract_def)
next
  fix m
  assume "strip m \<noteq> missing_object"
  with missing_line
  show "logged (step3_handler (JsException m)) \<noteq> logged (step3_handler (ValueError missing_object))"
    by (intro js_line_differs) (simp_all add: missing_object_def isspace_def)
qed

subsection \<open>The frame handed to the writer\<close>

lemma assemble_Inl_no_sink: "assemble L resp = Inl out \<Longrightarrow> sink_input out = None"
  by (auto simp: assemble_def aborted_def step3_handler_def
      split: response.splits sum.splits prod.splits option.splits)

lemma assemble_Inr:
  assumes "assemble L resp = Inr st"
  shows "\<exists>markup soup data d. resp = Page markup \<and> html_parser L markup = Inr soup
           \<and> extract_js L soup = Inr data \<and> normalize L data = Inr d
           \<and> st = \<lparr>errors_txt = [], main_fields = Some (assembled soup d)\<rparr>"
proof -
  from assms obtain markup where r: "resp = Page markup"
    by (cases resp) (auto simp: assemble_def)
  from assms r obtain soup where p: "html_parser L markup = Inr soup"
    by (cases "html_parser L markup") (auto simp: assemble_def)
  from assms r p obtain data where j: "extract_js L soup = Inr data"
    by (cases "extract_js L soup") (auto simp: assemble_def)
  show ?thesis
  proof (cases "normalize L data")
    case (Inl e)
    with assms r p j show ?thesis
      by (simp add: assemble_def extract_all_failed)
  next
    case (Inr d)
    with assms r p j show ?thesis
      by (auto simp add: assemble_def extract_all_ok)
  qed
qed

lemma dropped_columns:
  "(\<lambda>kv. fst kv \<notin> set columns_to_drop)
     = (\<lambda>kv::string \<times> pyval. fst kv \<notin> {''inscription'', ''family_parents'', ''family_spouses'', ''family_children''})"
  by (simp add: columns_to_drop_def)

text \<open>
  Claim C2. Whenever a frame is handed to the writer, steps 1 to 7 have completed and
  the record they built holds \<open>inscription\<close>, \<open>family_parents\<close>, \<open>family_spouses\<close> and
  \<open>family_children\<close>; the frame is that record without these four columns, so none of
  the four is a column of the frame; and \<open>biography\<close> and \<open>bio_by\<close> are columns of the
  frame with the values of the record.
\<close>

theorem final_record_columns:
  assumes "sink_input (run L resp) = Some df"
  shows "\<exists>st d. assemble L resp = Inr st \<and> main_fields st = Some d
           \<and> ''inscription'' \<in> set (dict_keys d)
           \<and> ''family_parents'' \<in> set (dict_keys d)
           \<and> ''family_spouses'' \<in> set (dict_keys d)
           \<and> ''family_children'' \<in> set (dict_keys d)
           \<and> df = filter (\<lambda>kv. fst kv \<notin> {''inscription'', ''family_parents'', ''family_spouses'',
                                            ''family_children''}) d
           \<and> ''inscription'' \<notin> set (dict_keys df)
           \<and> ''family_parents'' \<notin> set (dict_keys df)
           \<and> ''family_spouses'' \<notin> set (dict_keys df)
           \<and> ''family_children'' \<notin> set (dict_keys df)
           \<and> ''biography'' \<in> set (dict_keys df) \<and> map_of df ''biography'' = map_of d ''biography''
           \<and> ''bio_by'' \<in> set (dict_keys df) \<and> map_of df ''bio_by'' = map_of d ''bio_by''"
proof (cases "assemble L resp")
  case (Inl out)
  with assms assemble_Inl_no_sink [OF Inl] show ?thesis by (simp add: run_def)
next
  case (Inr st)
  from assemble_Inr [OF Inr] obtain soup d0 where
    st: "st = \<lparr>errors_txt = [], main_fields = Some (assembled soup d0)\<rparr>"
    by blast
  define d where "d = assembled soup d0"
  have mf: "main_fields st = Some d" by (simp add: st d_def)
  have df0: "df = filter (\<lambda>kv. fst kv \<notin> set columns_to_drop) d"
    using assms Inr mf
    by (auto simp: run_def step10_def df_drop_ignore save_failed_def aborted_def split: option.splits)
  have df: "df = filter (\<lambda>kv. fst kv \<notin> {''inscription'', ''family_parents'', ''family_spouses'',
                                            ''family_children''}) d"
    using df0 by (simp only: dropped_columns)
  have keys: "set (dict_keys d) = set (dict_keys d0) \<union> {''biography'', ''bio_by'', ''Plot'', ''inscription'',
                           ''family_parents'', ''family_spouses'', ''family_children''}"
    by (simp add: d_def keys_assembled)
  have a: "''inscription'' \<in> set (dict_keys d)" "''family_parents'' \<in> set (dict_keys d)"
    "''family_spouses'' \<in> set (dict_keys d)" "''family_children'' \<in> set (dict_keys d)"
    by (simp_all add: keys)
  have kdf: "set (dict_keys df) = set (dict_keys d) - set columns_to_drop"
    unfolding df0 by (rule keys_drop)
  have b: "''inscription'' \<notin> set (dict_keys df)" "''family_parents'' \<notin> set (dict_keys df)"
    "''family_spouses'' \<notin> set (dict_keys df)" "''family_children'' \<notin> set (dict_keys df)"
    by (simp_all add: kdf columns_to_drop_def)
  have c: "''biography'' \<in> set (dict_keys df)" "''bio_by'' \<in> set (dict_keys df)"
    by (simp_all add: kdf keys columns_to_drop_def)
  have m: "map_of df k = (if k \<in> set columns_to_drop then None else map_of d k)" for k
    unfolding df0 by (rule map_of_drop)
  have e: "map_of df ''biography'' = map_of d ''biography''" "map_of df ''bio_by'' = map_of d ''bio_by''"
    by (simp_all add: m columns_to_drop_def)
  show ?thesis
    by (rule exI [of _ st], rule exI [of _ d]) (intro conjI Inr mf a df b c e)
qed

subsection \<open>The fragment of the libraries on the pages\<close>

lemmas frag_defs = fragment_libs_def fragment_parser_def fragment_markup_def html_fragment_def
  status_keywords_def emit_start_def
  plain_tags_def is_lower_def is_digit_def ascii_space_def ascii_lower_def entity_def
  end_data_def end_tag_def script_data_def collapse_def open_names_def document_def

lemmas find_defs = find_script_def find_tag_def find_all_def document_def has_attr_def has_class_def
  classes_def hyperlink_def re_decl_at_def ws0_def ws1_def isspace_def

lemmas re_defs = re_object_at_def re_decl_at_def re_tail_at_def ws0_def ws1_def isspace_def

lemmas js_defs = fragment_eval_def js_fragment_def js_code_def js_item_def js_word_def is_lower_def is_digit_def

lemma parse_no_script: "html_fragment page_no_script = Parsed (document [Tag ''p'' [] [Text ''hello'']])"
  by (simp add: frag_defs page_no_script_def)

lemma parse_rejected: "html_fragment page_rejected = Rejected ''x''"
  by (simp add: frag_defs page_rejected_def)

lemma parse_no_snippets:
  "html_fragment page_no_snippets
     = Parsed (document [Tag ''script'' [] [Special ''var findagrave = {}; var x = 1;'']])"
  by (simp add: frag_defs page_no_snippets_def)

lemma parse_truncated:
  "html_fragment page_truncated
     = Parsed (document [Tag ''script'' []
          [Special ''var findagrave = {\"fullName\":}; var htmlSnippets = {};'']])"
  by (simp add: frag_defs page_truncated_def)

lemma parse_no_full_name: "html_fragment page_no_full_name = Parsed soup_no_full_name"
  by (simp add: frag_defs page_no_full_name_def soup_no_full_name_def)

lemma parse_scenario:
  "html_fragment page_scenario = Parsed (document [Tag ''script'' [] [Special scenario_decl]])"
  by (simp add: frag_defs page_scenario_def scenario_decl_def scenario_object_def)

lemma parse_scenario_name:
  "html_fragment scenario_name
     = Parsed (document [Tag ''span'' [(''class'', ''prefix'')] [Text ''Pvt''], Text '' John Doe''])"
  by (simp add: frag_defs scenario_name_def)

lemma find_no_script: "find_script (document [Tag ''p'' [] [Text ''hello'']]) = None"
  by (simp add: find_defs)

lemma find_one_script:
  "re_search_decl raw \<Longrightarrow>
   find_script (document [Tag ''script'' [] [Special raw]]) = Some (Tag ''script'' [] [Special raw])"
  by (simp add: find_script_def find_tag_def find_all_def document_def)

lemma decl_no_snippets: "re_search_decl ''var findagrave = {}; var x = 1;''"
  by (simp add: re_defs)

lemma decl_truncated: "re_search_decl ''var findagrave = {\"fullName\":}; var htmlSnippets = {};''"
  by (simp add: re_defs)

lemma decl_no_full_name:
  "re_search_decl ''var findagrave = {\"firstName\":\"John\"}; var htmlSnippets = {};''"
  by (simp add: re_defs)

lemma decl_scenario: "re_search_decl scenario_decl"
  by (simp add: re_defs scenario_decl_def)

lemma object_no_snippets: "re_search_object ''var findagrave = {}; var x = 1;'' = None"
  by (simp add: re_defs)

lemma object_truncated:
  "re_search_object ''var findagrave = {\"fullName\":}; var htmlSnippets = {};'' = Some ''{\"fullName\":}''"
  by (simp add: re_defs)

lemma object_no_full_name:
  "re_search_object ''var findagrave = {\"firstName\":\"John\"}; var htmlSnippets = {};''
     = Some ''{\"firstName\":\"John\"}''"
  by (simp add: re_defs)

lemma object_scenario: "re_search_object scenario_decl = Some scenario_object"
  by (simp add: re_defs scenario_decl_def scenario_object_def)

lemma eval_no_full_name:
  "fragment_eval (js_code ''{\"firstName\":\"John\"}'') = Inr (PObj [(''firstName'', PStr ''John'')])"
  by (simp add: js_defs)

lemma eval_scenario: "fragment_eval (js_code scenario_object) = Inr scenario_payload"
  by (simp add: js_defs scenario_object_def scenario_payload_def scenario_name_def)
subsection \<open>A run from its parts\<close>

lemma parser_fragment: "html_fragment m = Parsed d \<Longrightarrow> html_parser fragment_libs m = Inr d"
  by (simp add: fragment_libs_def fragment_markup_def)

lemma parser_rejecting: "html_fragment m = Parsed d \<Longrightarrow> html_parser rejecting_libs m = Inr d"
  by (simp add: rejecting_libs_def fragment_libs_def fragment_markup_def)

lemma parser_fragment_rejected:
  "html_fragment m = Rejected nm \<Longrightarrow> html_parser fragment_libs m = Inl (rejected_message nm)"
  by (simp add: fragment_libs_def fragment_markup_def)

lemma build_fields_obj:
  "build_fields (PObj d) tbl
     = Inr (map (\<lambda>ka. (fst ka, case map_of d (snd ka) of None \<Rightarrow> PNone | Some v \<Rightarrow> v)) tbl)"
  by (induction tbl) auto

lemma normalize_obj:
  assumes "map_of d ''fullName'' = Some (PStr s)" "html_parser L s = Inr soup_name"
  shows "normalize L (PObj d)
     = Inr ((''full_name'', PStr (cleaned_tree soup_name))
            # map (\<lambda>ka. (fst ka, case map_of d (snd ka) of None \<Rightarrow> PNone | Some v \<Rightarrow> v)) field_table)"
  using assms by (simp add: normalize_def clean_full_name_def build_fields_obj)

lemma normalize_rejected:
  assumes "map_of d ''fullName'' = Some (PStr s)" "html_parser L s = Inl m"
  shows "normalize L (PObj d) = Inl (ParserRejectedMarkup m)"
  using assms by (simp add: normalize_def clean_full_name_def)

lemma normalize_absent:
  assumes "map_of d ''fullName'' = None"
  shows "normalize L (PObj d) = Inl (TypeError (markup_error L PNone))"
  using assms by (simp add: normalize_def clean_full_name_def)

lemma map_of_assembled:
  "map_of (assembled soup d) k =
     (if k = ''family_children'' then Some (PStr (py_join '', '' (family_links soup ''children'')))
      else if k = ''family_spouses'' then Some (PStr (py_join '', '' (family_links soup ''spouses'')))
      else if k = ''family_parents'' then Some (PStr (py_join '', '' (family_links soup ''parents'')))
      else if k = ''inscription'' then Some (PStr (inscription_of soup))
      else if k = ''Plot'' then Some (PStr (plot_of soup))
      else if k = ''bio_by'' then Some (PStr (bio_by_of soup))
      else if k = ''biography'' then Some (PStr (biography_of soup))
      else map_of d k)"
  by (simp add: assembled_def family_fields_def map_of_dict_set)

lemma run_assembled:
  assumes "html_parser L markup = Inr soup" "extract_js L soup = Inr data" "normalize L data = Inr d"
  shows "assemble L (Page markup)
           = Inr \<lparr>errors_txt = [], main_fields = Some (assembled soup d)\<rparr>"
    and "sink_input (run L (Page markup))
           = Some (filter (\<lambda>kv. fst kv \<notin> set columns_to_drop) (assembled soup d))"
    and "to_excel L (filter (\<lambda>kv. fst kv \<notin> set columns_to_drop) (assembled soup d)) = None
         \<Longrightarrow> run L (Page markup)
           = \<lparr>status = Completed, logged = [],
              sink_input = Some (filter (\<lambda>kv. fst kv \<notin> set columns_to_drop) (assembled soup d)),
              output_file = Some (filter (\<lambda>kv. fst kv \<notin> set columns_to_drop) (assembled soup d))\<rparr>"
proof -
  show a: "assemble L (Page markup)
           = Inr \<lparr>errors_txt = [], main_fields = Some (assembled soup d)\<rparr>"
    using assms by (simp add: assemble_def extract_all_ok)
  show "sink_input (run L (Page markup))
           = Some (filter (\<lambda>kv. fst kv \<notin> set columns_to_drop) (assembled soup d))"
    by (simp add: run_def a step10_def df_drop_ignore save_failed_def split: option.splits)
  show "to_excel L (filter (\<lambda>kv. fst kv \<notin> set columns_to_drop) (assembled soup d)) = None
         \<Longrightarrow> run L (Page markup)
           = \<lparr>status = Completed, logged = [],
              sink_input = Some (filter (\<lambda>kv. fst kv \<notin> set columns_to_drop) (assembled soup d)),
              output_file = Some (filter (\<lambda>kv. fst kv \<notin> set columns_to_drop) (assembled soup d))\<rparr>"
    by (simp add: run_def a step10_def df_drop_ignore)
qed

lemma run_crashed:
  assumes "html_parser L markup = Inr soup" "extract_js L soup = Inr data" "normalize L data = Inl e"
  shows "run L (Page markup) =
     \<lparr>status = Uncaught (NameError ''main_fields''),
      logged =
        [strip (''[DATA] Failed to extract main_fields: '' @ exc_str e) @ [CHR 0x0A],
         strip (''[DATA] Failed to extract biography info: '' @ exc_str (NameError ''main_fields'')) @ [CHR 0x0A],
         strip (''[DATA] Failed to extract Plot: '' @ exc_str (NameError ''main_fields'')) @ [CHR 0x0A]],
      sink_input = None, output_file = None\<rparr>"
  using assms by (simp add: run_def assemble_def extract_all_failed aborted_def)

lemma extract_js_found:
  assumes "find_script soup = Some tg" "tag_string tg = Some raw" "re_search_object raw = Some g"
  shows "extract_js L soup = (case eval_js L (js_code g) of Inl m \<Rightarrow> Inl (JsException m) | Inr d \<Rightarrow> Inr d)"
  using assms by (simp add: extract_js_def)

lemma cleaned_scenario:
  "cleaned_tree (document [Tag ''span'' [(''class'', ''prefix'')] [Text ''Pvt''], Text '' John Doe''])
   = ''John Doe''"
  by (simp add: cleaned_tree_def document_def prefix_span_def has_class_def classes_def get_text_strip_def
      stripped_strings_def strip_def isspace_def List.map_filter_def)

subsection \<open>The end-to-end scenario\<close>

text \<open>
  Claim C3. The end-to-end scenario: the tree of the page holds a script whose text is
  the declaration of the scenario, and no element with the identifier of the biography
  or of the plot. js2py gives the five properties of the literal and the parser reads
  the name as a prefix span followed by text. Then the frame handed to the writer has
  \<open>full_name = "John Doe"\<close>, \<open>first_name = "John"\<close>, \<open>birth_year = 1900\<close>,
  \<open>biography = ""\<close>, \<open>Plot = ""\<close> and none of the four dropped columns; when the
  writer succeeds the run completes and the workbook holds that frame.
\<close>

theorem scenario_record:
  assumes page: "html_parser L markup = Inr soup"
    and script: "find_script soup = Some tg" "tag_string tg = Some scenario_decl"
    and js: "eval_js L (js_code scenario_object) = Inr scenario_payload"
    and name: "html_parser L scenario_name
                 = Inr (document [Tag ''span'' [(''class'', ''prefix'')] [Text ''Pvt''], Text '' John Doe''])"
    and nobio: "find_tag (has_attr ''div'' ''id'' ''partBio'') soup = None"
    and noplot: "find_tag (has_attr ''span'' ''id'' ''plotValueLabel'') soup = None"
  shows "\<exists>df. sink_input (run L (Page markup)) = Some df
           \<and> map_of df ''full_name'' = Some (PStr ''John Doe'')
           \<and> map_of df ''first_name'' = Some (PStr ''John'')
           \<and> map_of df ''birth_year'' = Some (PInt 1900)
           \<and> map_of df ''biography'' = Some (PStr [])
           \<and> map_of df ''Plot'' = Some (PStr [])
           \<and> ''inscription'' \<notin> set (dict_keys df)
           \<and> ''family_parents'' \<notin> set (dict_keys df)
           \<and> ''family_spouses'' \<notin> set (dict_keys df)
           \<and> ''family_children'' \<notin> set (dict_keys df)
           \<and> (to_excel L df = None \<longrightarrow>
                 status (run L (Page markup)) = Completed \<and> output_file (run L (Page markup)) = Some df)"
proof -
  define d where "d = (''full_name'', PStr ''John Doe'')
            # map (\<lambda>ka. (fst ka, case map_of
                  [(''fullName'', PStr scenario_name), (''firstName'', PStr ''John''),
                   (''lastName'', PStr ''Doe''), (''birthYear'', PInt 1900), (''deathYear'', PInt 1944)]
                  (snd ka) of None \<Rightarrow> PNone | Some v \<Rightarrow> v)) field_table"
  define df where "df = filter (\<lambda>kv. fst kv \<notin> set columns_to_drop) (assembled soup d)"
  have ex: "extract_js L soup = Inr scenario_payload"
    using extract_js_found [OF script object_scenario, of L] js by simp
  have nm: "normalize L scenario_payload = Inr d"
    unfolding scenario_payload_def d_def
    by (subst normalize_obj [where s = scenario_name, OF _ name]) (simp_all add: cleaned_scenario)
  have sink: "sink_input (run L (Page markup)) = Some df"
    using run_assembled(2) [OF page ex nm] by (simp add: df_def)
  have m: "map_of df k = (if k \<in> set columns_to_drop then None else map_of (assembled soup d) k)" for k
    unfolding df_def by (rule map_of_drop)
  have kdf: "set (dict_keys df) = set (dict_keys (assembled soup d)) - set columns_to_drop"
    unfolding df_def by (rule keys_drop)
  have bio: "biography_of soup = []" using nobio by (simp add: biography_of_def)
  have plot: "plot_of soup = []" using noplot by (simp add: plot_of_def)
  have v1: "map_of df ''full_name'' = Some (PStr ''John Doe'')"
    by (simp add: m columns_to_drop_def map_of_assembled d_def)
  have v2: "map_of df ''first_name'' = Some (PStr ''John'')"
    by (simp add: m columns_to_drop_def map_of_assembled d_def field_table_def)
  have v3: "map_of df ''birth_year'' = Some (PInt 1900)"
    by (simp add: m columns_to_drop_def map_of_assembled d_def field_table_def)
  have v4: "map_of df ''biography'' = Some (PStr [])"
    by (simp add: m columns_to_drop_def map_of_assembled bio)
  have v5: "map_of df ''Plot'' = Some (PStr [])"
    by (simp add: m columns_to_drop_def map_of_assembled plot)
  have k: "''inscription'' \<notin> set (dict_keys df)" "''family_parents'' \<notin> set (dict_keys df)"
    "''family_spouses'' \<notin> set (dict_keys df)" "''family_children'' \<notin> set (dict_keys df)"
    by (simp_all add: kdf columns_to_drop_def)
  have fin: "to_excel L df = None \<longrightarrow>
      status (run L (Page markup)) = Completed \<and> output_file (run L (Page markup)) = Some df"
    using run_assembled(3) [OF page ex nm] by (simp add: df_def)
  show ?thesis
    by (rule exI [of _ df]) (intro conjI sink v1 v2 v3 v4 v5 k fin)
qed
lemma find_nothing_in_script:
  "find_tag (has_attr n k v) (document [Tag ''script'' [] [Special raw]]) = None \<or> n = ''script''"
  by (simp add: find_tag_def find_all_def document_def has_attr_def)

text \<open>The scenario on the fragment of the libraries, with the script as the whole page.\<close>

theorem scenario_record_witness:
  "html_parser fragment_libs page_scenario = Inr (document [Tag ''script'' [] [Special scenario_decl]])
   \<and> find_script (document [Tag ''script'' [] [Special scenario_decl]])
        = Some (Tag ''script'' [] [Special scenario_decl])
   \<and> tag_string (Tag ''script'' [] [Special scenario_decl]) = Some scenario_decl
   \<and> eval_js fragment_libs (js_code scenario_object) = Inr scenario_payload
   \<and> html_parser fragment_libs scenario_name
        = Inr (document [Tag ''span'' [(''class'', ''prefix'')] [Text ''Pvt''], Text '' John Doe''])
   \<and> find_tag (has_attr ''div'' ''id'' ''partBio'') (document [Tag ''script'' [] [Special scenario_decl]]) = None
   \<and> find_tag (has_attr ''span'' ''id'' ''plotValueLabel'')
        (document [Tag ''script'' [] [Special scenario_decl]]) = None
   \<and> (\<exists>df. sink_input (run fragment_libs (Page page_scenario)) = Some df
           \<and> map_of df ''full_name'' = Some (PStr ''John Doe'')
           \<and> map_of df ''first_name'' = Some (PStr ''John'')
           \<and> map_of df ''birth_year'' = Some (PInt 1900)
           \<and> map_of df ''biography'' = Some (PStr [])
           \<and> map_of df ''Plot'' = Some (PStr [])
           \<and> ''inscription'' \<notin> set (dict_keys df)
           \<and> ''family_parents'' \<notin> set (dict_keys df)
           \<and> ''family_spouses'' \<notin> set (dict_keys df)
           \<and> ''family_children'' \<notin> set (dict_keys df)
           \<and> (to_excel fragment_libs df = None \<longrightarrow>
                 status (run fragment_libs (Page page_scenario)) = Completed
                 \<and> output_file (run fragment_libs (Page page_scenario)) = Some df))"
proof -
  have h0: "html_parser fragment_libs page_scenario = Inr (document [Tag ''script'' [] [Special scenario_decl]])"
    by (rule parser_fragment [OF parse_scenario])
  have h1: "find_script (document [Tag ''script'' [] [Special scenario_decl]])
              = Some (Tag ''script'' [] [Special scenario_decl])"
    by (rule find_one_script [OF decl_scenario])
  have h2: "tag_string (Tag ''script'' [] [Special scenario_decl]) = Some scenario_decl"
    by simp
  have h3: "eval_js fragment_libs (js_code scenario_object) = Inr scenario_payload"
    using eval_scenario by (simp add: fragment_libs_def)
  have h4: "html_parser fragment_libs scenario_name
        = Inr (document [Tag ''span'' [(''class'', ''prefix'')] [Text ''Pvt''], Text '' John Doe''])"
    by (rule parser_fragment [OF parse_scenario_name])
  have h5: "find_tag (has_attr ''div'' ''id'' ''partBio'') (document [Tag ''script'' [] [Special scenario_decl]]) = None"
    using find_nothing_in_script [of "''div''" "''id''" "''partBio''" scenario_decl] by simp
  have h6: "find_tag (has_attr ''span'' ''id'' ''plotValueLabel'')
        (document [Tag ''script'' [] [Special scenario_decl]]) = None"
    using find_nothing_in_script [of "''span''" "''id''" "''plotValueLabel''" scenario_decl] by simp
  note c = scenario_record [OF h0 h1 h2 h3 h4 h5 h6]
  show ?thesis by (intro conjI h0 h1 h2 h3 h4 h5 h6 c)
qed
subsection \<open>The failures of step 3 on pages\<close>

text \<open>
  The three failures of step 3 on pages: no script, no \<open>htmlSnippets\<close> after the
  object, and a literal the evaluator rejects, whose line is not the line of the
  missing block.
\<close>

theorem js_failure_aborts_witness:
  "html_parser fragment_libs page_no_script = Inr (document [Tag ''p'' [] [Text ''hello'']])
   \<and> find_script (document [Tag ''p'' [] [Text ''hello'']]) = None
   \<and> run fragment_libs (Page page_no_script) = step3_handler (ValueError missing_object)
   \<and> html_parser fragment_libs page_no_snippets
        = Inr (document [Tag ''script'' [] [Special ''var findagrave = {}; var x = 1;'']])
   \<and> find_script (document [Tag ''script'' [] [Special ''var findagrave = {}; var x = 1;'']])
        = Some (Tag ''script'' [] [Special ''var findagrave = {}; var x = 1;''])
   \<and> re_search_object ''var findagrave = {}; var x = 1;'' = None
   \<and> run fragment_libs (Page page_no_snippets) = step3_handler (ValueError failed_to_extract)
   \<and> html_parser rejecting_libs page_truncated
        = Inr (document [Tag ''script'' []
             [Special ''var findagrave = {\"fullName\":}; var htmlSnippets = {};'']])
   \<and> find_script (document [Tag ''script'' []
             [Special ''var findagrave = {\"fullName\":}; var htmlSnippets = {};'']])
        = Some (Tag ''script'' [] [Special ''var findagrave = {\"fullName\":}; var htmlSnippets = {};''])
   \<and> re_search_object ''var findagrave = {\"fullName\":}; var htmlSnippets = {};'' = Some ''{\"fullName\":}''
   \<and> eval_js rejecting_libs (js_code ''{\"fullName\":}'') = Inl ''SyntaxError''
   \<and> run rejecting_libs (Page page_truncated) = step3_handler (JsException ''SyntaxError'')
   \<and> exit_code (status (step3_handler (JsException ''SyntaxError''))) = 1
   \<and> strip ''SyntaxError'' \<noteq> missing_object
   \<and> logged (step3_handler (JsException ''SyntaxError''))
        \<noteq> logged (step3_handler (ValueError missing_object))"
proof -
  note p1 = parser_fragment [OF parse_no_script]
  note p2 = parser_fragment [OF parse_no_snippets]
  note p3 = parser_rejecting [OF parse_truncated]
  have a1: "find_script (document [Tag ''p'' [] [Text ''hello'']]) = None"
    by (rule find_no_script)
  have a2: "run fragment_libs (Page page_no_script) = step3_handler (ValueError missing_object)"
    using js_failure_aborts [OF p1] a1 by (elim conjE) simp
  have b1: "find_script (document [Tag ''script'' [] [Special ''var findagrave = {}; var x = 1;'']])
        = Some (Tag ''script'' [] [Special ''var findagrave = {}; var x = 1;''])"
    by (rule find_one_script [OF decl_no_snippets])
  have b2: "tag_string (Tag ''script'' [] [Special ''var findagrave = {}; var x = 1;''])
        = Some ''var findagrave = {}; var x = 1;''"
    by simp
  have "\<forall>tg raw. find_script (document [Tag ''script'' [] [Special ''var findagrave = {}; var x = 1;'']]) = Some tg
         \<and> tag_string tg = Some raw \<and> re_search_object raw = None \<longrightarrow>
      run fragment_libs (Page page_no_snippets) = step3_handler (ValueError failed_to_extract)"
    using js_failure_aborts [OF p2] by (elim conjE)
  then have b3: "run fragment_libs (Page page_no_snippets) = step3_handler (ValueError failed_to_extract)"
    using b1 b2 object_no_snippets by (elim allE impE) (intro conjI, assumption+)
  have c1: "find_script (document [Tag ''script'' []
             [Special ''var findagrave = {\"fullName\":}; var htmlSnippets = {};'']])
        = Some (Tag ''script'' [] [Special ''var findagrave = {\"fullName\":}; var htmlSnippets = {};''])"
    by (rule find_one_script [OF decl_truncated])
  have c2: "tag_string (Tag ''script'' [] [Special ''var findagrave = {\"fullName\":}; var htmlSnippets = {};''])
        = Some ''var findagrave = {\"fullName\":}; var htmlSnippets = {};''"
    by simp
  have c3: "eval_js rejecting_libs (js_code ''{\"fullName\":}'') = Inl ''SyntaxError''"
    by (simp add: rejecting_libs_def)
  have "\<forall>tg raw g m. find_script (document [Tag ''script'' []
             [Special ''var findagrave = {\"fullName\":}; var htmlSnippets = {};'']]) = Some tg
         \<and> tag_string tg = Some raw
         \<and> re_search_object raw = Some g \<and> eval_js rejecting_libs (js_code g) = Inl m \<longrightarrow>
      run rejecting_libs (Page page_truncated) = step3_handler (JsException m)"
    using js_failure_aborts [OF p3] by (elim conjE)
  then have c4: "run rejecting_libs (Page page_truncated) = step3_handler (JsException ''SyntaxError'')"
    using c1 c2 object_truncated c3 by (elim allE impE) (intro conjI, assumption+)
  have x: "exit_code (status (step3_handler (JsException ''SyntaxError''))) = 1"
    by (simp add: step3_handler_def aborted_def)
  have d1: "strip ''SyntaxError'' \<noteq> missing_object"
    by (simp add: strip_def isspace_def missing_object_def)
  have "\<forall>m. strip m \<noteq> missing_object \<longrightarrow>
         logged (step3_handler (JsException m)) \<noteq> logged (step3_handler (ValueError missing_object))"
    using js_failure_aborts [OF p1] by (elim conjE)
  then have d2: "logged (step3_handler (JsException ''SyntaxError''))
        \<noteq> logged (step3_handler (ValueError missing_object))"
    using d1 by (elim allE impE)
  show ?thesis
    by (intro conjI p1 a1 a2 p2 b1 object_no_snippets b3 p3 c1 object_truncated c3 c4 x d1 d2)
qed

text \<open>
  Claim C1 as stated fails: the page \<open><p>hello</p><![x]]>\<close> holds no script element,
  and html.parser refuses its marked section. The constructor of line 29 raises outside
  every \<open>try\<close>: the run ends on that exception with nothing appended to the error log,
  so without a line tagged \<open>[CRITICAL]\<close>.
\<close>

theorem rejected_page_logs_nothing:
  "page_rejected = ''<p>hello</p><![x]]>''
   \<and> html_parser fragment_libs page_rejected = Inl (rejected_message ''x'')
   \<and> status (run fragment_libs (Page page_rejected))
        = Uncaught (ParserRejectedMarkup (rejected_message ''x''))
   \<and> logged (run fragment_libs (Page page_rejected)) = []
   \<and> run fragment_libs (Page page_rejected) \<noteq> step3_handler (ValueError missing_object)
   \<and> output_file (run fragment_libs (Page page_rejected)) = None"
proof -
  note p = parser_fragment_rejected [OF parse_rejected]
  note r = rejected_markup_uncaught [OF p]
  have "status (run fragment_libs (Page page_rejected)) \<noteq> status (step3_handler (ValueError missing_object))"
    by (simp add: r step3_handler_def aborted_def)
  then have n: "run fragment_libs (Page page_rejected) \<noteq> step3_handler (ValueError missing_object)"
    by (rule contrapos_nn) simp
  have s: "status (run fragment_libs (Page page_rejected))
        = Uncaught (ParserRejectedMarkup (rejected_message ''x''))"
    and l: "logged (run fragment_libs (Page page_rejected)) = []"
    and f: "output_file (run fragment_libs (Page page_rejected)) = None"
    by (simp_all add: r)
  show ?thesis
    by (intro conjI p n s l f) (simp add: page_rejected_def)
qed
subsection \<open>A failure in step 4\<close>

text \<open>
  Claim C4 (the code does otherwise). When the body of step 4 raises, the handler logs
  the failure and \<open>main_fields\<close> is never bound: the dictionary display is one
  expression, so no field of it is kept. Step 5 then logs a \<open>NameError\<close>, and the
  handler of step 5.1 raises a \<open>NameError\<close> of its own that nothing catches. The run
  dies with three lines logged, nothing handed to the writer and no workbook.
\<close>

theorem normalize_failure_crashes:
  assumes "html_parser L markup = Inr soup" and "extract_js L soup = Inr data"
    and "normalize L data = Inl e"
  shows "status (run L (Page markup)) = Uncaught (NameError ''main_fields'')
       \<and> exit_code (status (run L (Page markup))) = 1
       \<and> logged (run L (Page markup)) =
            [strip (''[DATA] Failed to extract main_fields: '' @ exc_str e) @ [CHR 0x0A],
             strip (''[DATA] Failed to extract biography info: '' @ exc_str (NameError ''main_fields''))
               @ [CHR 0x0A],
             strip (''[DATA] Failed to extract Plot: '' @ exc_str (NameError ''main_fields'')) @ [CHR 0x0A]]
       \<and> sink_input (run L (Page markup)) = None
       \<and> output_file (run L (Page markup)) = None"
  by (simp add: run_crashed [OF assms])

lemma extract_no_full_name:
  "extract_js fragment_libs soup_no_full_name = Inr (PObj [(''firstName'', PStr ''John'')])"
proof -
  have "find_script soup_no_full_name
          = Some (Tag ''script'' []
               [Special ''var findagrave = {\"firstName\":\"John\"}; var htmlSnippets = {};''])"
    unfolding soup_no_full_name_def by (rule find_one_script [OF decl_no_full_name])
  from extract_js_found [OF this _ object_no_full_name, of fragment_libs]
  show ?thesis using eval_no_full_name by (simp add: fragment_libs_def)
qed

lemma normalize_no_full_name:
  "normalize fragment_libs (PObj [(''firstName'', PStr ''John'')]) = Inl (TypeError (no_len PNone))"
  using normalize_absent [of "[(''firstName'', PStr ''John'')]" fragment_libs]
  by (simp add: fragment_libs_def)

text \<open>A page whose object has no \<open>fullName\<close>: the run dies of the \<open>NameError\<close>.\<close>

theorem normalize_failure_crashes_witness:
  "html_parser fragment_libs page_no_full_name = Inr soup_no_full_name
   \<and> extract_js fragment_libs soup_no_full_name = Inr (PObj [(''firstName'', PStr ''John'')])
   \<and> normalize fragment_libs (PObj [(''firstName'', PStr ''John'')]) = Inl (TypeError (no_len PNone))
   \<and> status (run fragment_libs (Page page_no_full_name)) = Uncaught (NameError ''main_fields'')
   \<and> sink_input (run fragment_libs (Page page_no_full_name)) = None
   \<and> output_file (run fragment_libs (Page page_no_full_name)) = None"
proof -
  note p = parser_fragment [OF parse_no_full_name]
  note c = normalize_failure_crashes [OF p extract_no_full_name normalize_no_full_name]
  show ?thesis
    by (intro conjI p extract_no_full_name normalize_no_full_name
        conjunct1 [OF c] conjunct1 [OF conjunct2 [OF conjunct2 [OF conjunct2 [OF c]]]]
        conjunct2 [OF conjunct2 [OF conjunct2 [OF conjunct2 [OF c]]]])
qed

lemma map_of_renamed:
  assumes "distinct (map fst tbl)" "(k, a) \<in> set tbl"
  shows "map_of (map (\<lambda>ka. (fst ka, f (snd ka))) tbl) k = Some (f a)"
  using assms by (induction tbl) (auto simp: rev_image_eqI)

lemma field_table_keys: "distinct (map fst field_table)" "''full_name'' \<notin> set (map fst field_table)"
  by (simp_all add: field_table_def)

text \<open>
  Claim C5 (the code does otherwise for one key). A payload without \<open>fullName\<close> gives
  \<open>None\<close> for the name, the parser's constructor refuses it, and the body of step 4
  raises: no record is built. When \<open>fullName\<close> is a string that the parser reads, the
  record is built, and every key of the table that the payload lacks gives \<open>None\<close> in
  its field. When it is a string that the parser rejects, the body raises as well.
\<close>

theorem absent_full_name_fails:
  "(map_of d ''fullName'' = None \<longrightarrow>
      normalize L (PObj d) = Inl (TypeError (markup_error L PNone)))
   \<and> (\<forall>s soup_name. map_of d ''fullName'' = Some (PStr s) \<and> html_parser L s = Inr soup_name \<longrightarrow>
        (\<exists>r. normalize L (PObj d) = Inr r
           \<and> map_of r ''full_name'' = Some (PStr (cleaned_tree soup_name))
           \<and> (\<forall>k a. (k, a) \<in> set field_table \<and> map_of d a = None \<longrightarrow> map_of r k = Some PNone)))
   \<and> (\<forall>s m. map_of d ''fullName'' = Some (PStr s) \<and> html_parser L s = Inl m \<longrightarrow>
        normalize L (PObj d) = Inl (ParserRejectedMarkup m))"
proof (intro conjI allI impI)
  assume "map_of d ''fullName'' = None"
  then show "normalize L (PObj d) = Inl (TypeError (markup_error L PNone))"
    by (rule normalize_absent)
next
  fix s soup_name
  assume "map_of d ''fullName'' = Some (PStr s) \<and> html_parser L s = Inr soup_name"
  then have s: "map_of d ''fullName'' = Some (PStr s)" and p: "html_parser L s = Inr soup_name"
    by simp_all
  define f where "f a = (case map_of d a of None \<Rightarrow> PNone | Some v \<Rightarrow> v)" for a
  define r where "r = (''full_name'', PStr (cleaned_tree soup_name))
                       # map (\<lambda>ka. (fst ka, f (snd ka))) field_table"
  have n: "normalize L (PObj d) = Inr r"
    unfolding r_def f_def by (rule normalize_obj [OF s p])
  have v: "map_of r ''full_name'' = Some (PStr (cleaned_tree soup_name))"
    by (simp add: r_def)
  have "map_of r k = Some PNone" if "(k, a) \<in> set field_table \<and> map_of d a = None" for k a
  proof -
    from that have "(k, a) \<in> set field_table" by simp
    then have "fst (k, a) \<in> fst ` set field_table" by (rule imageI)
    then have "k \<in> set (map fst field_table)" by simp
    with field_table_keys(2) have "k \<noteq> ''full_name''" by blast
    moreover have "map_of (map (\<lambda>ka. (fst ka, f (snd ka))) field_table) k = Some (f a)"
      using that by (intro map_of_renamed field_table_keys(1)) simp
    ultimately show ?thesis using that by (simp add: r_def f_def)
  qed
  with n v show "\<exists>r. normalize L (PObj d) = Inr r
           \<and> map_of r ''full_name'' = Some (PStr (cleaned_tree soup_name))
           \<and> (\<forall>k a. (k, a) \<in> set field_table \<and> map_of d a = None \<longrightarrow> map_of r k = Some PNone)"
    by blast
next
  fix s m
  assume "map_of d ''fullName'' = Some (PStr s) \<and> html_parser L s = Inl m"
  then show "normalize L (PObj d) = Inl (ParserRejectedMarkup m)"
    by (simp add: normalize_rejected)
qed

lemma parse_ann: "html_fragment ''Ann'' = Parsed (document [Text ''Ann''])"
  by (simp add: frag_defs)

text \<open>
  A payload without \<open>fullName\<close>, one with a name and no \<open>birthYear\<close>, and one whose
  name the parser rejects.
\<close>

theorem absent_full_name_fails_witness:
  "map_of [(''firstName'', PStr ''John'')] ''fullName'' = None
   \<and> normalize fragment_libs (PObj [(''firstName'', PStr ''John'')]) = Inl (TypeError (no_len PNone))
   \<and> map_of [(''fullName'', PStr ''Ann'')] ''fullName'' = Some (PStr ''Ann'')
   \<and> html_parser fragment_libs ''Ann'' = Inr (document [Text ''Ann''])
   \<and> (\<exists>r. normalize fragment_libs (PObj [(''fullName'', PStr ''Ann'')]) = Inr r
          \<and> map_of r ''birth_year'' = Some PNone)
   \<and> map_of [(''fullName'', PStr page_rejected)] ''fullName'' = Some (PStr page_rejected)
   \<and> html_parser fragment_libs page_rejected = Inl (rejected_message ''x'')
   \<and> normalize fragment_libs (PObj [(''fullName'', PStr page_rejected)])
        = Inl (ParserRejectedMarkup (rejected_message ''x''))"
proof -
  note t = absent_full_name_fails [of "[(''firstName'', PStr ''John'')]" fragment_libs]
  have a: "map_of [(''firstName'', PStr ''John'')] ''fullName'' = None" by simp
  have b: "normalize fragment_libs (PObj [(''firstName'', PStr ''John'')]) = Inl (TypeError (no_len PNone))"
    using conjunct1 [OF t] a by (simp add: fragment_libs_def)
  note u = absent_full_name_fails [of "[(''fullName'', PStr ''Ann'')]" fragment_libs]
  have c: "map_of [(''fullName'', PStr ''Ann'')] ''fullName'' = Some (PStr ''Ann'')" by simp
  note p = parser_fragment [OF parse_ann]
  from conjunct1 [OF conjunct2 [OF u]] c p obtain r where
    r: "normalize fragment_libs (PObj [(''fullName'', PStr ''Ann'')]) = Inr r"
    and k: "\<forall>k a. (k, a) \<in> set field_table \<and> map_of [(''fullName'', PStr ''Ann'')] a = None
               \<longrightarrow> map_of r k = Some PNone"
    by blast
  have "(''birth_year'', ''birthYear'') \<in> set field_table" by (simp add: field_table_def)
  then have "(''birth_year'', ''birthYear'') \<in> set field_table
      \<and> map_of [(''fullName'', PStr ''Ann'')] ''birthYear'' = None"
    by simp
  with k have "map_of r ''birth_year'' = Some PNone" by (elim allE impE)
  with r have d: "\<exists>r. normalize fragment_libs (PObj [(''fullName'', PStr ''Ann'')]) = Inr r
          \<and> map_of r ''birth_year'' = Some PNone"
    by (intro exI conjI)
  note w = absent_full_name_fails [of "[(''fullName'', PStr page_rejected)]" fragment_libs]
  have e: "map_of [(''fullName'', PStr page_rejected)] ''fullName'' = Some (PStr page_rejected)" by simp
  note q = parser_fragment_rejected [OF parse_rejected]
  from conjunct2 [OF conjunct2 [OF w]] e q
  have f: "normalize fragment_libs (PObj [(''fullName'', PStr page_rejected)])
        = Inl (ParserRejectedMarkup (rejected_message ''x''))"
    by (elim allE impE) (intro conjI, assumption+)
  show ?thesis by (intro conjI a b c p d e q f)
qed
subsection \<open>The steps on the markup\<close>

lemma biography_absent:
  assumes "find_tag (has_attr ''div'' ''id'' ''partBio'') soup = None" and "main_fields st = Some d"
  shows "\<exists>d'. step5 soup st = (None, st\<lparr>main_fields := Some d'\<rparr>)
           \<and> map_of d' ''biography'' = Some (PStr [])"
proof -
  have "biography_of soup = []" using assms(1) by (simp add: biography_of_def)
  then have "step5 soup st = (None, st\<lparr>main_fields :=
      Some (dict_set ''bio_by'' (PStr (bio_by_of soup)) (dict_set ''biography'' (PStr []) d))\<rparr>)"
    using step5_bound [OF assms(2), of soup] by simp
  moreover have "map_of (dict_set ''bio_by'' (PStr (bio_by_of soup)) (dict_set ''biography'' (PStr []) d))
      ''biography'' = Some (PStr [])"
    by (simp add: map_of_dict_set)
  ultimately show ?thesis by blast
qed

text \<open>
  Claim C8 (the code does otherwise when step 4 has failed). With \<open>main_fields\<close>
  unbound, step 5 on a document without the biography element sets no biography: the
  assignment raises a \<open>NameError\<close>, which its handler logs. Step 5.1 then raises a
  \<open>NameError\<close> in its handler, and that one leaves steps 5 to 7. (With \<open>main_fields\<close>
  bound, the biography is the empty string and nothing is raised: lemma
  \<open>biography_absent\<close>.)
\<close>

theorem biography_without_record:
  assumes "find_tag (has_attr ''div'' ''id'' ''partBio'') soup = None" and "main_fields st = None"
  shows "fst (step5 soup st) = None
       \<and> main_fields (snd (step5 soup st)) = None
       \<and> fst (seq (step5 soup) (seq (step5_1 soup) (seq (step6 soup) (step7 soup))) st)
            = Some (NameError ''main_fields'')
       \<and> main_fields (snd (seq (step5 soup) (seq (step5_1 soup) (seq (step6 soup) (step7 soup))) st))
            = None"
  using assms(2)
  by (simp add: seq_def step5_unbound step5_1_unbound log_error_def)

text \<open>The state after a failed step 4, and the page that leads to it.\<close>

theorem biography_without_record_witness:
  "html_parser fragment_libs page_no_full_name = Inr soup_no_full_name
   \<and> find_tag (has_attr ''div'' ''id'' ''partBio'') soup_no_full_name = None
   \<and> main_fields st0 = None
   \<and> main_fields (snd (step5 soup_no_full_name st0)) = None
   \<and> fst (seq (step5 soup_no_full_name)
            (seq (step5_1 soup_no_full_name)
              (seq (step6 soup_no_full_name) (step7 soup_no_full_name))) st0)
        = Some (NameError ''main_fields'')"
proof -
  note p = parser_fragment [OF parse_no_full_name]
  have a: "find_tag (has_attr ''div'' ''id'' ''partBio'') soup_no_full_name = None"
    unfolding soup_no_full_name_def
    using find_nothing_in_script [of "''div''" "''id''" "''partBio''"] by simp
  have b: "main_fields st0 = None" by (simp add: st0_def)
  note c = biography_without_record [OF a b]
  show ?thesis
    by (intro conjI p a b conjunct1 [OF conjunct2 [OF c]]
        conjunct1 [OF conjunct2 [OF conjunct2 [OF c]]])
qed



text \<open>
  Claim C10. Dropping the four columns with the errors ignored returns for every frame,
  with or without these columns. So when the inscription and family steps have raised
  and set none of them, step 10 still hands the frame to the writer, and the run
  completes when the writer does.
\<close>

theorem drop_never_raises:
  "df_drop columns_to_drop Errors_ignore d = Inr (filter (\<lambda>kv. fst kv \<notin> set columns_to_drop) d)
   \<and> (main_fields st = Some d \<longrightarrow>
        fst (seq (step6_with (Inl e6)) (step7_with (Inl e7)) st) = None
        \<and> main_fields (snd (seq (step6_with (Inl e6)) (step7_with (Inl e7)) st)) = Some d
        \<and> sink_input (step10 L (snd (seq (step6_with (Inl e6)) (step7_with (Inl e7)) st)))
             = Some (filter (\<lambda>kv. fst kv \<notin> set columns_to_drop) d)
        \<and> (to_excel L (filter (\<lambda>kv. fst kv \<notin> set columns_to_drop) d) = None \<longrightarrow>
             status (step10 L (snd (seq (step6_with (Inl e6)) (step7_with (Inl e7)) st))) = Completed))"
proof (intro conjI impI)
  show "df_drop columns_to_drop Errors_ignore d = Inr (filter (\<lambda>kv. fst kv \<notin> set columns_to_drop) d)"
    by (rule df_drop_ignore)
next
  assume b: "main_fields st = Some d"
  define st' where "st' = snd (seq (step6_with (Inl e6)) (step7_with (Inl e7)) st)"
  show "fst (seq (step6_with (Inl e6)) (step7_with (Inl e7)) st) = None"
    by (simp add: seq_def step6_with_def step7_with_def try_except_def assign_def update_stmt_def
        log_stmt_def)
  show m: "main_fields (snd (seq (step6_with (Inl e6)) (step7_with (Inl e7)) st)) = Some d"
    using b
    by (simp add: seq_def step6_with_def step7_with_def try_except_def assign_def update_stmt_def
        log_stmt_def log_error_def)
  show "sink_input (step10 L (snd (seq (step6_with (Inl e6)) (step7_with (Inl e7)) st)))
          = Some (filter (\<lambda>kv. fst kv \<notin> set columns_to_drop) d)"
    by (simp add: step10_def m df_drop_ignore save_failed_def split: option.splits)
  show "status (step10 L (snd (seq (step6_with (Inl e6)) (step7_with (Inl e7)) st))) = Completed"
    if "to_excel L (filter (\<lambda>kv. fst kv \<notin> set columns_to_drop) d) = None"
    using that by (simp add: step10_def m df_drop_ignore)
qed

lemma drop_raise_contrast:
  "df_drop columns_to_drop Errors_raise [(''full_name'', PStr ''Ann'')] = Inl (KeyError columns_to_drop)"
  by (simp add: df_drop_def absent_labels_def columns_to_drop_def)

text \<open>A record without the four columns, after both steps raised.\<close>

theorem drop_never_raises_witness:
  "main_fields \<lparr>errors_txt = [], main_fields = Some [(''full_name'', PStr ''Ann'')]\<rparr>
     = Some [(''full_name'', PStr ''Ann'')]
   \<and> to_excel fragment_libs [(''full_name'', PStr ''Ann'')] = None
   \<and> df_drop columns_to_drop Errors_ignore [(''full_name'', PStr ''Ann'')]
        = Inr [(''full_name'', PStr ''Ann'')]
   \<and> sink_input (step10 fragment_libs
        (snd (seq (step6_with (Inl (AttributeError ''get_text'')))
                  (step7_with (Inl (AttributeError ''find_all'')))
                \<lparr>errors_txt = [], main_fields = Some [(''full_name'', PStr ''Ann'')]\<rparr>)))
      = Some [(''full_name'', PStr ''Ann'')]
   \<and> status (step10 fragment_libs
        (snd (seq (step6_with (Inl (AttributeError ''get_text'')))
                  (step7_with (Inl (AttributeError ''find_all'')))
                \<lparr>errors_txt = [], main_fields = Some [(''full_name'', PStr ''Ann'')]\<rparr>)))
      = Completed"
proof -
  define st where "st = \<lparr>errors_txt = [], main_fields = Some [(''full_name'', PStr ''Ann'')]\<rparr>"
  have f: "filter (\<lambda>kv. fst kv \<notin> set columns_to_drop) [(''full_name'', PStr ''Ann'')]
             = [(''full_name'', PStr ''Ann'')]"
    by (simp add: columns_to_drop_def)
  have a: "main_fields st = Some [(''full_name'', PStr ''Ann'')]" by (simp add: st_def)
  have x: "to_excel fragment_libs [(''full_name'', PStr ''Ann'')] = None"
    by (simp add: fragment_libs_def)
  note c = drop_never_raises [of "[(''full_name'', PStr ''Ann'')]" st "AttributeError ''get_text''"
      "AttributeError ''find_all''" fragment_libs, unfolded f]
  have d: "df_drop columns_to_drop Errors_ignore [(''full_name'', PStr ''Ann'')]
        = Inr [(''full_name'', PStr ''Ann'')]"
    by (rule conjunct1 [OF c])
  from conjunct2 [OF c] a x
  have s: "sink_input (step10 fragment_libs
        (snd (seq (step6_with (Inl (AttributeError ''get_text'')))
                  (step7_with (Inl (AttributeError ''find_all''))) st)))
      = Some [(''full_name'', PStr ''Ann'')]"
    and t: "status (step10 fragment_libs
        (snd (seq (step6_with (Inl (AttributeError ''get_text'')))
                  (step7_with (Inl (AttributeError ''find_all''))) st))) = Completed"
    by simp_all
  show ?thesis using a x d s t unfolding st_def by (intro conjI)
qed
subsection \<open>Cleaning a name twice\<close>

lemma lex_plain: "plain_text t \<Longrightarrow> lex M_data acc t = Parsed (rev acc @ map TChar t)"
  by (induction t arbitrary: acc) (auto simp: plain_text_def)

lemma build_chars: "build buf fs (map TChar t) = build (rev t @ buf) fs []"
  by (induction t arbitrary: buf) auto

lemma fragment_plain:
  assumes "plain_text t"
  shows "html_fragment t = Parsed (text_document t)"
proof -
  have "build [] [(''[document]'', [], [])] (map TChar t) = text_document t"
    by (simp add: build_chars end_data_def text_document_def document_def)
  then show ?thesis
    using lex_plain [OF assms, of "[]"] by (simp add: html_fragment_def)
qed

lemma fragment_parser_plain: "plain_text t \<Longrightarrow> fragment_parser t = text_document t"
  by (simp add: fragment_parser_def fragment_plain)

lemma ascii_space_isspace: "ascii_space c \<Longrightarrow> isspace c"
  by (auto simp: ascii_space_def isspace_def)

lemma collapse_id:
  assumes "t \<noteq> []" "\<not> isspace (hd t)"
  shows "collapse t = t"
proof -
  from assms have "\<not> ascii_space (hd t)" using ascii_space_isspace by blast
  with assms(1) have "\<not> list_all ascii_space t" by (cases t) auto
  then show ?thesis by (simp add: collapse_def)
qed

lemma concat_ends:
  assumes "\<forall>s\<in>set xs. s \<noteq> [] \<and> \<not> isspace (hd s) \<and> \<not> isspace (last s)"
  shows "concat xs = [] \<or> (\<not> isspace (hd (concat xs)) \<and> \<not> isspace (last (concat xs)))"
  using assms
proof (induction xs)
  case Nil
  then show ?case by simp
next
  case (Cons x xs)
  then have x: "x \<noteq> []" "\<not> isspace (hd x)" "\<not> isspace (last x)" by auto
  from Cons have "concat xs = [] \<or> (\<not> isspace (hd (concat xs)) \<and> \<not> isspace (last (concat xs)))"
    by auto
  with x show ?case by (cases "concat xs = []") (auto simp: hd_append)
qed

lemma get_text_strip_ends:
  "get_text_strip nd = []
   \<or> (\<not> isspace (hd (get_text_strip nd)) \<and> \<not> isspace (last (get_text_strip nd)))"
  unfolding get_text_strip_def
proof (rule concat_ends, rule ballI)
  fix s assume "s \<in> set (stripped_strings nd)"
  then obtain x where "s = strip x" "s \<noteq> []"
    by (auto simp: stripped_strings_def)
  then show "s \<noteq> [] \<and> \<not> isspace (hd s) \<and> \<not> isspace (last s)"
    using strip_ends [of x] by simp
qed

lemma cleaned_text_document:
  assumes "t = [] \<or> (\<not> isspace (hd t) \<and> \<not> isspace (last t))"
  shows "cleaned_tree (text_document t) = t"
proof (cases "t = []")
  case True
  then show ?thesis
    by (simp add: cleaned_tree_def text_document_def document_def get_text_strip_def stripped_strings_def
        List.map_filter_def)
next
  case False
  with assms have e: "\<not> isspace (hd t)" "\<not> isspace (last t)" by auto
  have "collapse t = t" using False e(1) by (rule collapse_id)
  moreover have "strip t = t" using False e by (rule strip_id)
  ultimately show ?thesis
    using False
    by (simp add: cleaned_tree_def text_document_def document_def get_text_strip_def stripped_strings_def
        List.map_filter_def prefix_span_def has_class_def)
qed

text \<open>
  Claim C7, as amended. For a parser that reads character data as one string, cleaning
  is idempotent on every name whose cleaned text holds no \<open><\<close> and no \<open>&\<close>: cleaning
  that text again gives the same text.
\<close>

theorem cleaning_idempotent_on_plain:
  assumes "reads_character_data parser"
    and "plain_text (cleaned parser s)"
  shows "cleaned parser (cleaned parser s) = cleaned parser s"
proof -
  define t where "t = cleaned parser s"
  have ends: "t = [] \<or> (\<not> isspace (hd t) \<and> \<not> isspace (last t))"
    unfolding t_def cleaned_def cleaned_tree_def by (rule get_text_strip_ends)
  have "parser t = text_document t" using assms by (simp add: t_def reads_character_data_def)
  then have "cleaned parser t = cleaned_tree (text_document t)"
    by (simp add: cleaned_def)
  also have "\<dots> = t" using ends by (rule cleaned_text_document)
  finally show ?thesis by (simp add: t_def)
qed

lemma cleaned_fragment_scenario: "cleaned fragment_parser scenario_name = ''John Doe''"
  using parse_scenario_name cleaned_scenario by (simp add: cleaned_def fragment_parser_def)

text \<open>The parser of the fragment on the name of the scenario.\<close>

theorem cleaning_idempotent_on_plain_witness:
  "reads_character_data fragment_parser
   \<and> cleaned fragment_parser scenario_name = ''John Doe''
   \<and> plain_text (cleaned fragment_parser scenario_name)
   \<and> cleaned fragment_parser (cleaned fragment_parser scenario_name)
        = cleaned fragment_parser scenario_name"
proof -
  have a: "reads_character_data fragment_parser"
    by (simp add: reads_character_data_def fragment_parser_plain)
  have b: "plain_text (cleaned fragment_parser scenario_name)"
    by (simp add: cleaned_fragment_scenario plain_text_def)
  note c = cleaning_idempotent_on_plain [OF a b]
  show ?thesis by (intro conjI a cleaned_fragment_scenario b c)
qed

lemma cleaned_amp_amp: "cleaned fragment_parser ''&amp;amp;'' = ''&amp;''"
proof -
  have "html_fragment ''&amp;amp;'' = Parsed (document [Text ''&amp;''])"
    by (simp add: frag_defs)
  then show ?thesis
    by (simp add: cleaned_def cleaned_tree_def fragment_parser_def document_def get_text_strip_def
        stripped_strings_def List.map_filter_def prefix_span_def has_class_def strip_def isspace_def)
qed

lemma cleaned_amp: "cleaned fragment_parser ''&amp;'' = ''&''"
proof -
  have "html_fragment ''&amp;'' = Parsed (document [Text ''&''])"
    by (simp add: frag_defs)
  then show ?thesis
    by (simp add: cleaned_def cleaned_tree_def fragment_parser_def document_def get_text_strip_def
        stripped_strings_def List.map_filter_def prefix_span_def has_class_def strip_def isspace_def)
qed

text \<open>
  Claim C7 as stated fails: a name with a character reference to \<open>&\<close> in front of
  \<open>amp;\<close> is cleaned to \<open>&amp;\<close>, and cleaning that gives \<open>&\<close>.
\<close>

theorem cleaning_not_idempotent:
  "cleaned fragment_parser ''&amp;amp;'' = ''&amp;''
   \<and> cleaned fragment_parser (cleaned fragment_parser ''&amp;amp;'') = ''&''
   \<and> cleaned fragment_parser (cleaned fragment_parser ''&amp;amp;'')
        \<noteq> cleaned fragment_parser ''&amp;amp;''"
  by (simp add: cleaned_amp_amp cleaned_amp)
subsection \<open>Family relations\<close>

lemma py_join_concat:
  "py_join sep xs = (case xs of [] \<Rightarrow> [] | x # r \<Rightarrow> x @ concat (map (\<lambda>y. sep @ y) r))"
  by (induction sep xs rule: py_join.induct) auto

lemma step7_fields:
  assumes "main_fields st = Some d"
  shows "\<exists>d'. step7 soup st = (None, st\<lparr>main_fields := Some d'\<rparr>)
           \<and> map_of d' ''family_parents'' = Some (PStr (py_join '', '' (family_links soup ''parents'')))
           \<and> map_of d' ''family_spouses'' = Some (PStr (py_join '', '' (family_links soup ''spouses'')))
           \<and> map_of d' ''family_children'' = Some (PStr (py_join '', '' (family_links soup ''children'')))"
proof -
  have "map_of (dict_update d (family_fields soup)) ''family_parents''
          = Some (PStr (py_join '', '' (family_links soup ''parents'')))"
    "map_of (dict_update d (family_fields soup)) ''family_spouses''
          = Some (PStr (py_join '', '' (family_links soup ''spouses'')))"
    "map_of (dict_update d (family_fields soup)) ''family_children''
          = Some (PStr (py_join '', '' (family_links soup ''children'')))"
    by (simp_all add: family_fields_def map_of_dict_set)
  with step7_bound [OF assms, of soup] show ?thesis by blast
qed

text \<open>
  Claim C6. When the family section is present, the links of a relation are the
  stripped texts of the hyperlinks below the first block of that relation, in document
  order, and none when the section has no such block; each of the three fields is
  \<open>", ".join\<close> of the links of its relation (the first text, then every other text after
  a comma and a space), so the empty string for a relation without a block; and step 7
  stores these three strings in the record.
\<close>

theorem family_strings:
  assumes "find_tag (has_attr ''section'' ''id'' ''family-members'') soup = Some sec"
  shows "family_fields soup =
           [(''family_parents'', PStr (py_join '', '' (family_links soup ''parents''))),
            (''family_spouses'', PStr (py_join '', '' (family_links soup ''spouses''))),
            (''family_children'', PStr (py_join '', '' (family_links soup ''children'')))]
       \<and> (\<forall>rel. family_links soup rel =
             (case find_tag (has_attr ''div'' ''data-relationship'' rel) sec of
                None \<Rightarrow> []
              | Some blk \<Rightarrow> map get_text_strip (filter hyperlink (descendants blk))))
       \<and> (\<forall>rel. find_tag (has_attr ''div'' ''data-relationship'' rel) sec = None \<longrightarrow>
             py_join '', '' (family_links soup rel) = [])
       \<and> (\<forall>xs. py_join '', '' xs =
             (case xs of [] \<Rightarrow> [] | x # r \<Rightarrow> x @ concat (map (\<lambda>y. '', '' @ y) r)))
       \<and> (\<forall>(st::state) d. main_fields st = Some d \<longrightarrow>
             (\<exists>d'. step7 soup st = (None, st\<lparr>main_fields := Some d'\<rparr>)
                \<and> map_of d' ''family_parents'' = Some (PStr (py_join '', '' (family_links soup ''parents'')))
                \<and> map_of d' ''family_spouses'' = Some (PStr (py_join '', '' (family_links soup ''spouses'')))
                \<and> map_of d' ''family_children''
                     = Some (PStr (py_join '', '' (family_links soup ''children'')))))"
proof (intro conjI allI impI)
  show "family_fields soup =
           [(''family_parents'', PStr (py_join '', '' (family_links soup ''parents''))),
            (''family_spouses'', PStr (py_join '', '' (family_links soup ''spouses''))),
            (''family_children'', PStr (py_join '', '' (family_links soup ''children'')))]"
    by (simp add: family_fields_def)
next
  fix rel
  show "family_links soup rel =
             (case find_tag (has_attr ''div'' ''data-relationship'' rel) sec of
                None \<Rightarrow> []
              | Some blk \<Rightarrow> map get_text_strip (filter hyperlink (descendants blk)))"
    using assms by (simp add: family_links_def find_all_def split: option.splits)
next
  fix rel
  assume "find_tag (has_attr ''div'' ''data-relationship'' rel) sec = None"
  then show "py_join '', '' (family_links soup rel) = []"
    using assms by (simp add: family_links_def)
next
  fix xs
  show "py_join '', '' xs = (case xs of [] \<Rightarrow> [] | x # r \<Rightarrow> x @ concat (map (\<lambda>y. '', '' @ y) r))"
    by (rule py_join_concat)
next
  fix st :: state and d
  assume "main_fields st = Some d"
  then show "\<exists>d'. step7 soup st = (None, st\<lparr>main_fields := Some d'\<rparr>)
                \<and> map_of d' ''family_parents'' = Some (PStr (py_join '', '' (family_links soup ''parents'')))
                \<and> map_of d' ''family_spouses'' = Some (PStr (py_join '', '' (family_links soup ''spouses'')))
                \<and> map_of d' ''family_children''
                     = Some (PStr (py_join '', '' (family_links soup ''children'')))"
    by (rule step7_fields)
qed

lemmas text_defs = get_text_strip_def stripped_strings_def List.map_filter_def strip_def isspace_def

lemma parse_family: "html_fragment page_family = Parsed family_soup"
  by (simp add: frag_defs page_family_def family_soup_def)

lemma family_section:
  "find_tag (has_attr ''section'' ''id'' ''family-members'') family_soup
     = Some (Tag ''section'' [(''id'', ''family-members'')]
          [Tag ''div'' [(''data-relationship'', ''parents'')]
             [Tag ''a'' [(''href'', ''x'')] [Text '' P1 ''],
              Tag ''a'' [] [Text ''no''],
              Tag ''b'' [] [Tag ''a'' [(''href'', ''y'')] [Text ''P2'']]]])"
  by (simp add: find_tag_def find_all_def has_attr_def family_soup_def document_def)

lemma family_parents: "family_links family_soup ''parents'' = [''P1'', ''P2'']"
  by (simp add: family_links_def family_section)
    (simp add: find_tag_def find_all_def has_attr_def hyperlink_def text_defs)

lemma family_spouses: "family_links family_soup ''spouses'' = []"
  by (simp add: family_links_def family_section)
    (simp add: find_tag_def find_all_def has_attr_def)

text \<open>The page with two parents linked and no block of spouses.\<close>

theorem family_strings_witness:
  "html_parser fragment_libs page_family = Inr family_soup
   \<and> find_tag (has_attr ''section'' ''id'' ''family-members'') family_soup
     = Some (Tag ''section'' [(''id'', ''family-members'')]
          [Tag ''div'' [(''data-relationship'', ''parents'')]
             [Tag ''a'' [(''href'', ''x'')] [Text '' P1 ''],
              Tag ''a'' [] [Text ''no''],
              Tag ''b'' [] [Tag ''a'' [(''href'', ''y'')] [Text ''P2'']]]])
   \<and> family_links family_soup ''parents'' = [''P1'', ''P2'']
   \<and> family_links family_soup ''spouses'' = []
   \<and> family_fields family_soup =
        [(''family_parents'', PStr ''P1, P2''), (''family_spouses'', PStr []),
         (''family_children'', PStr [])]"
proof -
  note c = family_strings [OF family_section]
  have ch: "family_links family_soup ''children'' = []"
    by (simp add: family_links_def family_section)
      (simp add: find_tag_def find_all_def has_attr_def)
  have f: "family_fields family_soup =
        [(''family_parents'', PStr ''P1, P2''), (''family_spouses'', PStr []),
         (''family_children'', PStr [])]"
    using conjunct1 [OF c] by (simp add: family_parents family_spouses ch)
  show ?thesis
    by (intro conjI parser_fragment [OF parse_family] family_section family_parents family_spouses f)
qed
subsection \<open>A page with every section\<close>

lemma extract_family:
  "extract_js fragment_libs family_soup = Inr (PObj [(''fullName'', PStr ''A B'')])"
proof -
  have d: "re_search_decl ''var findagrave = {\"fullName\":\"A B\"}; var htmlSnippets = {};''"
    by (simp add: re_defs)
  have f: "find_script family_soup
             = Some (Tag ''script'' [] [Special ''var findagrave = {\"fullName\":\"A B\"}; var htmlSnippets = {};''])"
    using d by (simp add: find_script_def find_tag_def find_all_def family_soup_def document_def)
  have o: "re_search_object ''var findagrave = {\"fullName\":\"A B\"}; var htmlSnippets = {};''
             = Some ''{\"fullName\":\"A B\"}''"
    by (simp add: re_defs)
  have e: "fragment_eval (js_code ''{\"fullName\":\"A B\"}'') = Inr (PObj [(''fullName'', PStr ''A B'')])"
    by (simp add: js_defs)
  from extract_js_found [OF f _ o, of fragment_libs] show ?thesis
    using e by (simp add: fragment_libs_def)
qed

lemma normalize_family:
  "normalize fragment_libs (PObj [(''fullName'', PStr ''A B'')]) = Inr family_record"
proof -
  have p: "plain_text ''A B''" by (simp add: plain_text_def)
  have c: "cleaned_tree (text_document ''A B'') = ''A B''"
    by (rule cleaned_text_document) (simp add: isspace_def)
  have q: "html_parser fragment_libs ''A B'' = Inr (text_document ''A B'')"
    by (rule parser_fragment [OF fragment_plain [OF p]])
  have m: "map (\<lambda>ka. (fst ka, case map_of [(''fullName'', PStr ''A B'')] (snd ka) of
                                 None \<Rightarrow> PNone | Some v \<Rightarrow> v)) field_table
             = map (\<lambda>ka. (fst ka, PNone)) field_table"
    unfolding field_table_def by simp
  have "map_of [(''fullName'', PStr ''A B'')] ''fullName'' = Some (PStr ''A B'')" by simp
  from normalize_obj [OF this q] show ?thesis
    by (simp only: c m family_record_def)
qed

lemma family_lookups:
  "biography_of family_soup = ''bio''" "inscription_of family_soup = ''RIP''"
  by (simp_all add: biography_of_def inscription_of_def find_tag_def find_all_def has_attr_def
      has_class_def classes_def family_soup_def document_def text_defs)

text \<open>
  The page with a biography, an inscription and two parents: the record holds the
  inscription and the parents, the frame handed to the writer has none of the four
  columns, and the biography is in both.
\<close>

theorem final_record_columns_witness:
  "\<exists>df. sink_input (run fragment_libs (Page page_family)) = Some df
     \<and> assemble fragment_libs (Page page_family)
          = Inr \<lparr>errors_txt = [], main_fields = Some (assembled family_soup family_record)\<rparr>
     \<and> map_of (assembled family_soup family_record) ''inscription'' = Some (PStr ''RIP'')
     \<and> map_of (assembled family_soup family_record) ''family_parents'' = Some (PStr ''P1, P2'')
     \<and> df = filter (\<lambda>kv. fst kv \<notin> {''inscription'', ''family_parents'', ''family_spouses'',
                                      ''family_children''}) (assembled family_soup family_record)
     \<and> ''inscription'' \<notin> set (dict_keys df)
     \<and> ''family_parents'' \<notin> set (dict_keys df)
     \<and> ''family_spouses'' \<notin> set (dict_keys df)
     \<and> ''family_children'' \<notin> set (dict_keys df)
     \<and> ''biography'' \<in> set (dict_keys df)
     \<and> map_of df ''biography'' = Some (PStr ''bio'')"
proof -
  define df where "df = filter (\<lambda>kv. fst kv \<notin> set columns_to_drop) (assembled family_soup family_record)"
  note soup = parser_fragment [OF parse_family]
  have a: "sink_input (run fragment_libs (Page page_family)) = Some df"
    using run_assembled(2) [OF soup extract_family normalize_family] by (simp add: df_def)
  have asm: "assemble fragment_libs (Page page_family)
      = Inr \<lparr>errors_txt = [], main_fields = Some (assembled family_soup family_record)\<rparr>"
    by (rule run_assembled(1) [OF soup extract_family normalize_family])
  from final_record_columns [OF a] obtain st d where
    s: "assemble fragment_libs (Page page_family) = Inr st" "main_fields st = Some d"
    and f: "df = filter (\<lambda>kv. fst kv \<notin> {''inscription'', ''family_parents'', ''family_spouses'',
                                            ''family_children''}) d"
    and k: "''inscription'' \<notin> set (dict_keys df)" "''family_parents'' \<notin> set (dict_keys df)"
      "''family_spouses'' \<notin> set (dict_keys df)" "''family_children'' \<notin> set (dict_keys df)"
    and kb: "''biography'' \<in> set (dict_keys df)"
    and b: "map_of df ''biography'' = map_of d ''biography''"
    by blast
  from s asm have "st = \<lparr>errors_txt = [], main_fields = Some (assembled family_soup family_record)\<rparr>"
    by simp
  with s(2) have d: "d = assembled family_soup family_record" by simp
  have i: "map_of (assembled family_soup family_record) ''inscription'' = Some (PStr ''RIP'')"
    by (simp add: map_of_assembled family_lookups)
  have p: "map_of (assembled family_soup family_record) ''family_parents'' = Some (PStr ''P1, P2'')"
    by (simp add: map_of_assembled family_parents)
  have bio: "map_of df ''biography'' = Some (PStr ''bio'')"
    using b by (simp add: d map_of_assembled family_lookups)
  show ?thesis
    by (rule exI [of _ df]) (intro conjI a asm i p f [unfolded d] k kb bio)
qed

end
